theory Spec2Isabelle
  imports Complex_Main "HOL-Library.Product_Lexorder" "HOL-Library.Multiset" "HOL-Library.AList"
begin

section \<open>Python values shared by the components\<close>

text \<open>
  The incident-triage agent is a Python program. Its strings are modelled as \<open>string\<close>
  (the UTF-8 bytes of the text), its lists as lists, its insertion-ordered
  dictionaries as association lists, its exceptions as the left summand of a sum type.
  \<open>datetime\<close> values are points in time, modelled as an \<open>int\<close> of microseconds since the
  epoch; every call of \<open>current_timestamp()\<close> is a parameter \<open>now\<close> of the model.
\<close>

datatype error =
    ValueError string
  | TypeError string
  | ValidationError string
  | LLMError string
  | ZeroDivisionError string


text \<open>A value found under a key of an untyped dictionary (\<open>Dict[str, Any]\<close>).\<close>

datatype pyval =
    PNone
  | PBool bool
  | PInt int
  | PStr string
  | PList "pyval list"

text \<open>Python's truth value of an object, as \<open>if x:\<close> and \<open>not x\<close> read it.\<close>

fun truthy :: "pyval \<Rightarrow> bool" where
  "truthy PNone = False"
| "truthy (PBool b) = b"
| "truthy (PInt n) = (n \<noteq> 0)"
| "truthy (PStr s) = (s \<noteq> [])"
| "truthy (PList xs) = (xs \<noteq> [])"

text \<open>\<open>d.get(key, default)\<close> on a dictionary.\<close>

definition dict_get :: "('k \<rightharpoonup> 'v) \<Rightarrow> 'k \<Rightarrow> 'v \<Rightarrow> 'v" where
  "dict_get d k dflt = (case d k of None \<Rightarrow> dflt | Some v \<Rightarrow> v)"

text \<open>
  \<open>str.lower()\<close>. A Python string is a sequence of Unicode code points; the model holds
  its UTF-8 bytes, in which an ASCII keyword occurs exactly where it occurs in the code
  points. Besides the ASCII capitals, two code points have a lower case that contains an
  ASCII letter: U+212A (the Kelvin sign, bytes E2 84 AA), whose lower case is \<open>k\<close>, and
  U+0130 (capital I with dot above, bytes C4 B0), whose lower case is \<open>i\<close> followed by
  U+0307 (bytes CC 87). The model folds these. Every other non-ASCII character is kept as
  it is, where Python may put another non-ASCII character: a test against ASCII text
  reads the same either way.
\<close>

definition lower_char :: "char \<Rightarrow> char" where
  "lower_char c =
     (case map_of (zip ''ABCDEFGHIJKLMNOPQRSTUVWXYZ'' ''abcdefghijklmnopqrstuvwxyz'') c of
        None \<Rightarrow> c
      | Some d \<Rightarrow> d)"

fun lower :: "string \<Rightarrow> string" where
  "lower [] = []"
| "lower (c # cs) =
     (if c = CHR 0xE2 then
        (case cs of
           a # b # rest \<Rightarrow>
             if a = CHR 0x84 \<and> b = CHR 0xAA then CHR ''k'' # lower rest else c # lower cs
         | short \<Rightarrow> c # lower cs)
      else if c = CHR 0xC4 then
        (case cs of
           a # rest \<Rightarrow>
             if a = CHR 0xB0 then CHR ''i'' # CHR 0xCC # CHR 0x87 # lower rest
             else c # lower cs
         | short \<Rightarrow> c # lower cs)
      else lower_char c # lower cs)"

text \<open>\<open>s.startswith(p)\<close> and the substring test \<open>needle in hay\<close>.\<close>

fun startswith :: "string \<Rightarrow> string \<Rightarrow> bool" where
  "startswith s [] = True"
| "startswith [] (p # ps) = False"
| "startswith (c # cs) (p # ps) = (c = p \<and> startswith cs ps)"

fun str_in :: "string \<Rightarrow> string \<Rightarrow> bool" where
  "str_in needle [] = (needle = [])"
| "str_in needle (c # cs) = (startswith (c # cs) needle \<or> str_in needle cs)"

text \<open>
  \<open>sorted(xs, key=k, reverse=True)\<close> and \<open>xs.sort(key=k, reverse=True)\<close>: Python's sort
  is stable also when reversed, so elements with equal keys keep their input order. A
  stable ascending sort on the negated key is the same list. The keys of the sources are
  pairs of numbers, compared lexicographically as Python compares tuples.
\<close>

definition sorted_reverse :: "('a \<Rightarrow> int \<times> int) \<Rightarrow> 'a list \<Rightarrow> 'a list" where
  "sorted_reverse k xs = sort_key (\<lambda>x. (- fst (k x), - snd (k x))) xs"

section \<open>Team model (models/team.py)\<close>

datatype TeamType =
  SRE | BACKEND | FRONTEND | INFRASTRUCTURE | SECURITY | DATABASE | DEVOPS | NETWORK

datatype TeamAvailability = AVAILABLE | BUSY | UNAVAILABLE | ON_CALL

record TeamCapability =
  incident_type :: string
  expertise_level :: int
  average_response_time :: int

record TeamMember =
  member_name :: string
  role :: string
  contact_info :: "(string \<times> string) list"
  on_call :: bool

record ResponseTeam =
  name :: string
  team_type :: TeamType
  capabilities :: "TeamCapability list"
  escalation_path :: "string list"
  members :: "TeamMember list"
  availability :: TeamAvailability
  current_incidents :: "string list"
  workload_score :: int

text \<open>\<open>ResponseTeam.__init__\<close>: a new team is available and has no incidents.\<close>

definition ResponseTeam_init ::
  "string \<Rightarrow> TeamType \<Rightarrow> TeamCapability list \<Rightarrow> string list \<Rightarrow> TeamMember list option
     \<Rightarrow> ResponseTeam" where
  "ResponseTeam_init nm ty caps path mems =
     \<lparr> name = nm, team_type = ty, capabilities = caps, escalation_path = path,
       members = (case mems of None \<Rightarrow> [] | Some ms \<Rightarrow> ms),
       availability = AVAILABLE, current_incidents = [], workload_score = 0 \<rparr>"

definition can_handle_incident_type :: "ResponseTeam \<Rightarrow> string \<Rightarrow> bool" where
  "can_handle_incident_type team ty =
     list_ex (\<lambda>cap. incident_type cap = ty) (capabilities team)"

fun first_expertise :: "TeamCapability list \<Rightarrow> string \<Rightarrow> int" where
  "first_expertise [] ty = 0"
| "first_expertise (cap # caps) ty =
     (if incident_type cap = ty then expertise_level cap else first_expertise caps ty)"

definition get_expertise_level :: "ResponseTeam \<Rightarrow> string \<Rightarrow> int" where
  "get_expertise_level team ty = first_expertise (capabilities team) ty"

definition update_workload_score :: "ResponseTeam \<Rightarrow> ResponseTeam" where
  "update_workload_score team = team\<lparr>workload_score := int (length (current_incidents team))\<rparr>"

definition assign_incident :: "string \<Rightarrow> ResponseTeam \<Rightarrow> ResponseTeam" where
  "assign_incident incident_id team =
     (if incident_id \<notin> set (current_incidents team)
      then update_workload_score (team\<lparr>current_incidents := current_incidents team @ [incident_id]\<rparr>)
      else team)"

definition resolve_incident :: "string \<Rightarrow> ResponseTeam \<Rightarrow> ResponseTeam" where
  "resolve_incident incident_id team =
     (if incident_id \<in> set (current_incidents team)
      then update_workload_score (team\<lparr>current_incidents := remove1 incident_id (current_incidents team)\<rparr>)
      else team)"

definition set_availability :: "TeamAvailability \<Rightarrow> ResponseTeam \<Rightarrow> ResponseTeam" where
  "set_availability a team = team\<lparr>availability := a\<rparr>"

definition max_concurrent_incidents :: nat where
  "max_concurrent_incidents = 5"

definition is_available_for_new_incidents :: "ResponseTeam \<Rightarrow> bool" where
  "is_available_for_new_incidents team =
     (if availability team = UNAVAILABLE then False
      else length (current_incidents team) < max_concurrent_incidents)"

text \<open>
  \<open>TeamRegistry.teams\<close> is a dictionary from team name to team. Python dictionaries keep
  insertion order, and assigning to a key that is present keeps its position:
  \<open>AList.update\<close> on an association list does the same.
\<close>

record TeamRegistry =
  teams :: "(string \<times> ResponseTeam) list"

definition register_team :: "ResponseTeam \<Rightarrow> TeamRegistry \<Rightarrow> TeamRegistry" where
  "register_team team reg = reg\<lparr>teams := AList.update (name team) team (teams reg)\<rparr>"

definition cap :: "string \<Rightarrow> int \<Rightarrow> int \<Rightarrow> TeamCapability" where
  "cap ty lvl mins = \<lparr> incident_type = ty, expertise_level = lvl, average_response_time = mins \<rparr>"

definition sre_team :: ResponseTeam where
  "sre_team = ResponseTeam_init ''SRE'' SRE
     [cap ''outage'' 5 5, cap ''performance'' 4 10, cap ''monitoring'' 5 5,
      cap ''infrastructure'' 4 15]
     [''Infrastructure'', ''Backend''] None"

definition backend_team :: ResponseTeam where
  "backend_team = ResponseTeam_init ''Backend'' BACKEND
     [cap ''api'' 5 10, cap ''database'' 4 15, cap ''performance'' 4 20, cap ''service'' 5 10]
     [''SRE'', ''Database''] None"

definition security_team :: ResponseTeam where
  "security_team = ResponseTeam_init ''Security'' SECURITY
     [cap ''security'' 5 5, cap ''breach'' 5 2, cap ''vulnerability'' 5 10,
      cap ''compliance'' 4 30]
     [''SRE'', ''Infrastructure''] None"

definition infrastructure_team :: ResponseTeam where
  "infrastructure_team = ResponseTeam_init ''Infrastructure'' INFRASTRUCTURE
     [cap ''infrastructure'' 5 10, cap ''network'' 4 15, cap ''deployment'' 5 10,
      cap ''scaling'' 4 20]
     [''SRE'', ''DevOps''] None"

text \<open>\<open>TeamRegistry.__init__\<close> with \<open>_initialize_default_teams\<close>.\<close>

definition TeamRegistry_init :: TeamRegistry where
  "TeamRegistry_init =
     register_team infrastructure_team
       (register_team security_team
         (register_team backend_team
           (register_team sre_team \<lparr> teams = [] \<rparr>)))"

definition get_team :: "TeamRegistry \<Rightarrow> string \<Rightarrow> ResponseTeam option" where
  "get_team reg team_name = map_of (teams reg) team_name"

definition get_available_teams :: "TeamRegistry \<Rightarrow> ResponseTeam list" where
  "get_available_teams reg = filter is_available_for_new_incidents (map snd (teams reg))"

text \<open>
  \<open>find_best_team_for_incident\<close>. The \<open>severity\<close> argument is not read. The sort key is the
  tuple \<open>(-expertise, workload_score)\<close>, ascending, and the sort is stable.
\<close>

definition find_best_team_for_incident ::
  "TeamRegistry \<Rightarrow> string \<Rightarrow> string \<Rightarrow> ResponseTeam option" where
  "find_best_team_for_incident reg ty severity =
     (let available_teams = get_available_teams reg;
          capable_teams = filter (\<lambda>team. can_handle_incident_type team ty) available_teams
      in if capable_teams = [] then get_team reg ''SRE''
         else (case sort_key (\<lambda>t. (- get_expertise_level t ty, workload_score t)) capable_teams of
                 [] \<Rightarrow> None
               | best # rest \<Rightarrow> Some best))"

text \<open>
  The registry holds references to mutable team objects: a call of \<open>assign_incident\<close>,
  \<open>resolve_incident\<close> or \<open>set_availability\<close> on a registered team changes the team the
  registry returns. \<open>on_team\<close> applies such a mutator to the team stored under a name.
\<close>

definition on_team :: "string \<Rightarrow> (ResponseTeam \<Rightarrow> ResponseTeam) \<Rightarrow> TeamRegistry \<Rightarrow> TeamRegistry" where
  "on_team team_name f reg =
     reg\<lparr>teams := map (\<lambda>(k, t). if k = team_name then (k, f t) else (k, t)) (teams reg)\<rparr>"

text \<open>The registries a program can reach from \<open>TeamRegistry()\<close>.\<close>

inductive reachable_registry :: "TeamRegistry \<Rightarrow> bool" where
  reg_init: "reachable_registry TeamRegistry_init"
| reg_register: "reachable_registry reg \<Longrightarrow> reachable_registry (register_team team reg)"
| reg_assign: "reachable_registry reg \<Longrightarrow> reachable_registry (on_team nm (assign_incident i) reg)"
| reg_resolve: "reachable_registry reg \<Longrightarrow> reachable_registry (on_team nm (resolve_incident i) reg)"
| reg_availability:
    "reachable_registry reg \<Longrightarrow> reachable_registry (on_team nm (set_availability a) reg)"

text \<open>Every key of the registry is the name of the team stored under it.\<close>

definition keys_are_names :: "TeamRegistry \<Rightarrow> bool" where
  "keys_are_names reg = list_all (\<lambda>(k, t). name t = k) (teams reg)"

text \<open>Registries used to exercise the fallback to the SRE team.\<close>

definition reg_sre_unavailable :: TeamRegistry where
  "reg_sre_unavailable = on_team ''SRE'' (set_availability UNAVAILABLE) TeamRegistry_init"

definition reg_sre_at_capacity :: TeamRegistry where
  "reg_sre_at_capacity =
     on_team ''SRE'' (assign_incident ''INC-5'')
       (on_team ''SRE'' (assign_incident ''INC-4'')
         (on_team ''SRE'' (assign_incident ''INC-3'')
           (on_team ''SRE'' (assign_incident ''INC-2'')
             (on_team ''SRE'' (assign_incident ''INC-1'') TeamRegistry_init))))"

definition reg_backend_unavailable :: TeamRegistry where
  "reg_backend_unavailable = on_team ''Backend'' (set_availability UNAVAILABLE) TeamRegistry_init"

section \<open>Notifier contract (notifications/base_notifier.py)\<close>

text \<open>
  \<open>BaseNotifier.__init__\<close> stores \<open>config.get("enabled", True)\<close>, whatever object the
  configuration holds there; \<open>should_notify\<close> reads its truth value.
\<close>

record BaseNotifier =
  config :: "string \<rightharpoonup> pyval"
  enabled :: pyval

definition BaseNotifier_init :: "(string \<rightharpoonup> pyval) \<Rightarrow> BaseNotifier" where
  "BaseNotifier_init cfg = \<lparr> config = cfg, enabled = dict_get cfg ''enabled'' (PBool True) \<rparr>"

definition is_enabled :: "BaseNotifier \<Rightarrow> pyval" where
  "is_enabled n = enabled n"

definition should_notify :: "BaseNotifier \<Rightarrow> (string \<rightharpoonup> pyval) \<Rightarrow> string \<Rightarrow> bool" where
  "should_notify n incident_data message_type =
     (if \<not> truthy (is_enabled n) then False
      else let severity = dict_get incident_data ''severity'' (PStr ''low'') in
        if severity = PStr ''critical'' then True
        else if truthy (dict_get incident_data ''is_security_incident'' (PBool False)) then True
        else if message_type = ''escalated'' then True
        else if severity = PStr ''high'' then True
        else if message_type = ''created'' \<and> severity \<in> set [PStr ''medium'', PStr ''low''] then True
        else False)"

text \<open>
  The rule as the specification words it: a table of conditions read in order, the first
  condition that holds gives the answer, and the answer is false when none holds.
\<close>

fun first_match :: "(bool \<times> bool) list \<Rightarrow> bool \<Rightarrow> bool" where
  "first_match [] dflt = dflt"
| "first_match ((cond, answer) # rules) dflt = (if cond then answer else first_match rules dflt)"

definition should_notify_documented ::
  "BaseNotifier \<Rightarrow> (string \<rightharpoonup> pyval) \<Rightarrow> string \<Rightarrow> bool" where
  "should_notify_documented n d message_type =
     (let sev = dict_get d ''severity'' (PStr ''low'');
          security = (case d ''is_security_incident'' of None \<Rightarrow> False | Some v \<Rightarrow> truthy v)
      in first_match
           [ (\<not> truthy (enabled n), False),
             (sev = PStr ''critical'', True),
             (security, True),
             (message_type = ''escalated'', True),
             (sev = PStr ''high'', True),
             (message_type = ''created'' \<and> (sev = PStr ''medium'' \<or> sev = PStr ''low''), True) ]
           False)"

section \<open>Schemas (schemas.py) and utilities (utils.py)\<close>

record IncidentReport =
  id_r :: string
  title :: string
  description :: string
  source :: string
  timestamp :: int
  reporter :: string
  affected_systems :: "string list"
  error_logs :: "string option"
  metrics_data :: "(string \<times> pyval) list option"
  severity_indicators :: "string list"

record TeamAssignment =
  team_name :: string
  assignment_reason :: string
  priority :: int
  escalation_path_ta :: "string list"
  estimated_response_time :: int

record ResolutionAction =
  action_type :: string
  description_ra :: string
  priority_ra :: int
  estimated_duration :: int
  required_permissions :: "string list"
  runbook_reference :: "string option"

text \<open>\<open>calculate_incident_priority_score\<close>: \<open>severity_scores.get(severity, 1)\<close> and two multipliers.\<close>

definition severity_scores :: "string \<rightharpoonup> int" where
  "severity_scores = map_of [(''critical'', 1000), (''high'', 100), (''medium'', 10), (''low'', 1)]"

definition calculate_incident_priority_score :: "string \<Rightarrow> int \<Rightarrow> bool \<Rightarrow> int" where
  "calculate_incident_priority_score severity affected_systems_count security_incident =
     (let base_score = dict_get severity_scores severity 1;
          system_multiplier = max 1 affected_systems_count;
          security_multiplier = (if security_incident then 2 else 1)
      in base_score * system_multiplier * security_multiplier)"

section \<open>Incident model (models/incident.py)\<close>

datatype IncidentSeverity = CRITICAL | HIGH | MEDIUM | LOW

datatype IncidentStatus = OPEN | IN_PROGRESS | RESOLVED | CLOSED

text \<open>
  \<open>IncidentSeverity(s)\<close> and \<open>IncidentStatus(s)\<close> look a member up by its value and raise
  \<open>ValueError\<close> when there is none: \<open>None\<close> here.
\<close>

definition IncidentSeverity_of :: "string \<Rightarrow> IncidentSeverity option" where
  "IncidentSeverity_of s =
     map_of [(''critical'', CRITICAL), (''high'', HIGH), (''medium'', MEDIUM), (''low'', LOW)] s"

fun severity_value :: "IncidentSeverity \<Rightarrow> string" where
  "severity_value CRITICAL = ''critical''"
| "severity_value HIGH = ''high''"
| "severity_value MEDIUM = ''medium''"
| "severity_value LOW = ''low''"

definition IncidentStatus_of :: "string \<Rightarrow> IncidentStatus option" where
  "IncidentStatus_of s =
     map_of [(''open'', OPEN), (''in_progress'', IN_PROGRESS), (''resolved'', RESOLVED),
             (''closed'', CLOSED)] s"

fun status_value :: "IncidentStatus \<Rightarrow> string" where
  "status_value OPEN = ''open''"
| "status_value IN_PROGRESS = ''in_progress''"
| "status_value RESOLVED = ''resolved''"
| "status_value CLOSED = ''closed''"

record escalation_record =
  esc_timestamp :: int
  esc_reason :: string
  target_team :: "string option"
  escalated_from :: "string list"

text \<open>The \<open>details\<close> dictionary of an audit entry, one constructor per shape the methods write.\<close>

datatype update_details =
    SeverityDetails string string
  | TeamDetails string string
  | ActionDetails string string
  | StatusDetails string string string
  | EscalationDetails escalation_record
  | SecurityDetails bool

record status_update =
  su_timestamp :: int
  su_action :: string
  su_details :: update_details

record Incident =
  report :: IncidentReport
  severity :: "IncidentSeverity option"
  status :: IncidentStatus
  team_assignments :: "TeamAssignment list"
  resolution_actions :: "ResolutionAction list"
  is_security_incident :: bool
  escalation_needed :: bool
  priority_score :: int
  created_at :: int
  updated_at :: int
  resolution_time :: "int option"
  escalation_history :: "escalation_record list"
  status_updates :: "status_update list"

definition Incident_init :: "int \<Rightarrow> IncidentReport \<Rightarrow> Incident" where
  "Incident_init now incident_report =
     \<lparr> report = incident_report, severity = None, status = OPEN, team_assignments = [],
       resolution_actions = [], is_security_incident = False, escalation_needed = False,
       priority_score = 0, created_at = timestamp incident_report, updated_at = now,
       resolution_time = None, escalation_history = [], status_updates = [] \<rparr>"

text \<open>
  The mutators. \<open>set_severity\<close> and \<open>update_status\<close> raise \<open>ValueError\<close> from the enum
  look-up, which is the first statement that can fail and precedes every assignment but
  \<open>old_status\<close>: the object is unchanged when they raise. The other mutators cannot raise.
\<close>

definition set_severity :: "int \<Rightarrow> string \<Rightarrow> string \<Rightarrow> Incident \<Rightarrow> error + Incident" where
  "set_severity now sev reasoning inc =
     (case IncidentSeverity_of sev of
        None \<Rightarrow> Inl (ValueError (''Invalid severity level: '' @ sev))
      | Some s \<Rightarrow>
          Inr (inc\<lparr> severity := Some s,
                    priority_score := calculate_incident_priority_score sev
                       (int (length (affected_systems (report inc)))) (is_security_incident inc),
                    updated_at := now,
                    status_updates := status_updates inc @
                       [\<lparr> su_timestamp = now, su_action = ''severity_set'',
                          su_details = SeverityDetails sev reasoning \<rparr>] \<rparr>))"

definition assign_team :: "int \<Rightarrow> TeamAssignment \<Rightarrow> Incident \<Rightarrow> Incident" where
  "assign_team now team_assignment inc =
     inc\<lparr> team_assignments := team_assignments inc @ [team_assignment],
          updated_at := now,
          status_updates := status_updates inc @
            [\<lparr> su_timestamp = now, su_action = ''team_assigned'',
               su_details = TeamDetails (team_name team_assignment)
                 (assignment_reason team_assignment) \<rparr>] \<rparr>"

definition add_resolution_action :: "int \<Rightarrow> ResolutionAction \<Rightarrow> Incident \<Rightarrow> Incident" where
  "add_resolution_action now act inc =
     inc\<lparr> resolution_actions := resolution_actions inc @ [act],
          updated_at := now,
          status_updates := status_updates inc @
            [\<lparr> su_timestamp = now, su_action = ''resolution_action_added'',
               su_details = ActionDetails (action_type act) (description_ra act) \<rparr>] \<rparr>"

definition update_status :: "int \<Rightarrow> string \<Rightarrow> string \<Rightarrow> Incident \<Rightarrow> error + Incident" where
  "update_status now new_status reason inc =
     (let old_status = status inc in
      case IncidentStatus_of new_status of
        None \<Rightarrow> Inl (ValueError (''Invalid status: '' @ new_status))
      | Some st \<Rightarrow>
          Inr (inc\<lparr> status := st,
                    updated_at := now,
                    resolution_time :=
                      (if st = RESOLVED \<and> old_status \<noteq> RESOLVED then Some now
                       else resolution_time inc),
                    status_updates := status_updates inc @
                      [\<lparr> su_timestamp = now, su_action = ''status_updated'',
                         su_details = StatusDetails (status_value old_status) new_status reason \<rparr>] \<rparr>))"

definition escalate :: "int \<Rightarrow> string \<Rightarrow> string option \<Rightarrow> Incident \<Rightarrow> Incident" where
  "escalate now escalation_reason target inc =
     (let rec = \<lparr> esc_timestamp = now, esc_reason = escalation_reason, target_team = target,
                  escalated_from = map team_name (team_assignments inc) \<rparr>
      in inc\<lparr> escalation_needed := True,
              updated_at := now,
              escalation_history := escalation_history inc @ [rec],
              status_updates := status_updates inc @
                [\<lparr> su_timestamp = now, su_action = ''escalated'',
                   su_details = EscalationDetails rec \<rparr>] \<rparr>)"

definition mark_as_security_incident :: "int \<Rightarrow> Incident \<Rightarrow> Incident" where
  "mark_as_security_incident now inc =
     inc\<lparr> is_security_incident := True,
          updated_at := now,
          priority_score :=
            (case severity inc of
               None \<Rightarrow> priority_score inc
             | Some s \<Rightarrow> calculate_incident_priority_score (severity_value s)
                          (int (length (affected_systems (report inc)))) True),
          status_updates := status_updates inc @
            [\<lparr> su_timestamp = now, su_action = ''marked_security_incident'',
               su_details = SecurityDetails True \<rparr>] \<rparr>"

text \<open>
  A call of a mutator, and the object after the call whether it returned or raised. A
  history of calls is a list of them, each with the clock reading it saw.
\<close>

datatype incident_call =
    SetSeverity string string
  | AssignTeam TeamAssignment
  | AddResolutionAction ResolutionAction
  | UpdateStatus string string
  | Escalate string "string option"
  | MarkAsSecurityIncident

fun after_call :: "int \<Rightarrow> incident_call \<Rightarrow> Incident \<Rightarrow> Incident" where
  "after_call now (SetSeverity sev reasoning) inc =
     (case set_severity now sev reasoning inc of Inl e \<Rightarrow> inc | Inr inc' \<Rightarrow> inc')"
| "after_call now (AssignTeam ta) inc = assign_team now ta inc"
| "after_call now (AddResolutionAction act) inc = add_resolution_action now act inc"
| "after_call now (UpdateStatus st reason) inc =
     (case update_status now st reason inc of Inl e \<Rightarrow> inc | Inr inc' \<Rightarrow> inc')"
| "after_call now (Escalate reason target) inc = escalate now reason target inc"
| "after_call now MarkAsSecurityIncident inc = mark_as_security_incident now inc"

fun after_calls :: "(int \<times> incident_call) list \<Rightarrow> Incident \<Rightarrow> Incident" where
  "after_calls [] inc = inc"
| "after_calls ((now, c) # cs) inc = after_calls cs (after_call now c inc)"

text \<open>The report of the test suite's \<open>sample_incident_report\<close> fixture.\<close>

definition sample_incident_report :: IncidentReport where
  "sample_incident_report =
     \<lparr> id_r = ''INC-TEST001'', title = ''Test Database Connection Issue'',
       description = ''Database connections are timing out intermittently'',
       source = ''monitoring'', timestamp = 0, reporter = ''monitoring-system'',
       affected_systems = [''database'', ''api''],
       error_logs = Some ''Connection timeout after 30 seconds'',
       metrics_data = None,
       severity_indicators = [''timeout'', ''database'', ''intermittent''] \<rparr>"

definition sre_team_at_capacity :: ResponseTeam where
  "sre_team_at_capacity =
     sre_team\<lparr> current_incidents := [''INC-1'', ''INC-2'', ''INC-3'', ''INC-4'', ''INC-5''],
               workload_score := 5 \<rparr>"

definition sample_incident :: Incident where
  "sample_incident = Incident_init 5 sample_incident_report"

section \<open>Triage router (routers/triage_router.py)\<close>

subsection \<open>Heuristic severity classification\<close>

text \<open>
  A \<open>for\<close> loop whose body is \<open>if p(x): return True\<close>: it returns at the first element
  that satisfies \<open>p\<close> and falls through when there is none. The built-in \<open>any\<close> over a
  generator is \<open>list_ex\<close>.
\<close>

fun returns_true_in_loop :: "('a \<Rightarrow> bool) \<Rightarrow> 'a list \<Rightarrow> bool" where
  "returns_true_in_loop p [] = False"
| "returns_true_in_loop p (x # xs) = (if p x then True else returns_true_in_loop p xs)"

definition security_keywords :: "string list" where
  "security_keywords =
     [''security'', ''breach'', ''unauthorized'', ''hack'', ''malware'', ''virus'',
      ''intrusion'', ''vulnerability'', ''exploit'', ''attack'', ''suspicious'',
      ''authentication'', ''authorization'', ''privilege'', ''injection'',
      ''xss'', ''csrf'', ''sql injection'', ''ddos'', ''phishing'']"

definition security_systems :: "string list" where
  "security_systems = [''auth'', ''authentication'', ''authorization'', ''security'', ''firewall'']"

text \<open>The f-string \<open>f"{title} {description}".lower()\<close>.\<close>

definition text_to_check :: "IncidentReport \<Rightarrow> string" where
  "text_to_check r = lower (title r @ '' '' @ description r)"

definition detect_security_indicators :: "IncidentReport \<Rightarrow> bool" where
  "detect_security_indicators r =
     (if list_ex (\<lambda>keyword. str_in keyword (text_to_check r)) security_keywords then True
      else if returns_true_in_loop
                (\<lambda>indicator. list_ex (\<lambda>keyword. str_in keyword (lower indicator)) security_keywords)
                (severity_indicators r) then True
      else if returns_true_in_loop
                (\<lambda>system. list_ex (\<lambda>sec_sys. str_in sec_sys (lower system)) security_systems)
                (affected_systems r) then True
      else False)"

definition critical_keywords :: "string list" where
  "critical_keywords =
     [''outage'', ''down'', ''unavailable'', ''complete failure'', ''total failure'',
      ''security breach'', ''data breach'', ''unauthorized access'', ''hack'']"

definition high_keywords :: "string list" where
  "high_keywords =
     [''degraded'', ''slow'', ''timeout'', ''error rate'', ''partial failure'',
      ''performance'', ''latency'', ''memory leak'']"

definition fallback_severity_classification :: "IncidentReport \<Rightarrow> string" where
  "fallback_severity_classification r =
     (if detect_security_indicators r then ''critical''
      else if list_ex (\<lambda>keyword. str_in keyword (text_to_check r)) critical_keywords
        then ''critical''
      else if length (affected_systems r) > 3 then ''high''
      else if list_ex (\<lambda>keyword. str_in keyword (text_to_check r)) high_keywords then ''high''
      else if length (affected_systems r) > 1 then ''medium''
      else ''low'')"

text \<open>
  The classifier as the specification defines it, for comparison with the code. A text
  contains a keyword when it is some characters, the keyword, and some more characters.
  The text read is the title, a space and the description, lower-cased; a severity
  indicator and the name of an affected system are read lower-cased too. Security
  detection is a disjunction of three matches against the documented keyword lists, and
  the severity is the first of four cases that applies.
\<close>

definition contains_keyword :: "string \<Rightarrow> string \<Rightarrow> bool" where
  "contains_keyword t k = (\<exists>before after. t = before @ k @ after)"

definition documented_security_keywords :: "string set" where
  "documented_security_keywords =
     {''security'', ''breach'', ''unauthorized'', ''hack'', ''malware'', ''virus'', ''intrusion'',
      ''vulnerability'', ''exploit'', ''attack'', ''suspicious'', ''authentication'',
      ''authorization'', ''privilege'', ''injection'', ''xss'', ''csrf'', ''sql injection'',
      ''ddos'', ''phishing''}"

definition documented_security_systems :: "string set" where
  "documented_security_systems =
     {''auth'', ''authentication'', ''authorization'', ''security'', ''firewall''}"

definition documented_critical_keywords :: "string set" where
  "documented_critical_keywords =
     {''outage'', ''down'', ''unavailable'', ''complete failure'', ''total failure'',
      ''security breach'', ''data breach'', ''unauthorized access'', ''hack''}"

definition documented_high_keywords :: "string set" where
  "documented_high_keywords =
     {''degraded'', ''slow'', ''timeout'', ''error rate'', ''partial failure'', ''performance'',
      ''latency'', ''memory leak''}"

definition security_detected_documented :: "IncidentReport \<Rightarrow> bool" where
  "security_detected_documented r =
     ((\<exists>k \<in> documented_security_keywords.
          contains_keyword (lower (title r @ '' '' @ description r)) k) \<or>
      (\<exists>indicator \<in> set (severity_indicators r).
          \<exists>k \<in> documented_security_keywords. contains_keyword (lower indicator) k) \<or>
      (\<exists>system \<in> set (affected_systems r).
          \<exists>s \<in> documented_security_systems. contains_keyword (lower system) s))"

definition severity_documented :: "IncidentReport \<Rightarrow> string" where
  "severity_documented r =
     (if security_detected_documented r \<or>
         (\<exists>k \<in> documented_critical_keywords.
             contains_keyword (lower (title r @ '' '' @ description r)) k)
      then ''critical''
      else if length (affected_systems r) > 3 \<or>
              (\<exists>k \<in> documented_high_keywords.
                  contains_keyword (lower (title r @ '' '' @ description r)) k)
      then ''high''
      else if length (affected_systems r) > 1 then ''medium''
      else ''low'')"

text \<open>Reports that exercise each case of the classifier.\<close>

definition report_of :: "string \<Rightarrow> string \<Rightarrow> string list \<Rightarrow> string list \<Rightarrow> IncidentReport" where
  "report_of ttl descr systems indicators =
     \<lparr> id_r = ''INC-0001'', title = ttl, description = descr, source = ''api'',
       timestamp = 0, reporter = ''unknown'', affected_systems = systems,
       error_logs = None, metrics_data = None, severity_indicators = indicators \<rparr>"

text \<open>The title \<open>hacKed build server\<close>, its \<open>K\<close> the Kelvin sign U+212A.\<close>

definition kelvin_title :: string where
  "kelvin_title = ''hac'' @ [CHR 0xE2, CHR 0x84, CHR 0xAA] @ ''ed build server''"

subsection \<open>Prioritisation\<close>

text \<open>
  \<open>get_enhanced_priority_score\<close>, the sort key of \<open>prioritize_incidents_with_impact_scope\<close>.
  \<open>severity_scores.get(incident.severity, 0)\<close> gives 0 to an incident whose severity is
  not set. The second component is \<open>-created_at.timestamp()\<close>; a \<open>datetime\<close> has
  microsecond resolution, which the float keeps for present-day dates, so comparing the
  negated microsecond counts compares the floats.
\<close>

definition severity_score :: "IncidentSeverity option \<Rightarrow> int" where
  "severity_score sev =
     (case sev of
        Some CRITICAL \<Rightarrow> 4
      | Some HIGH \<Rightarrow> 3
      | Some MEDIUM \<Rightarrow> 2
      | Some LOW \<Rightarrow> 1
      | None \<Rightarrow> 0)"

definition critical_systems :: "string list" where
  "critical_systems =
     [''auth'', ''payment'', ''database'', ''core'', ''api-gateway'', ''load-balancer'']"

definition critical_system_count :: "Incident \<Rightarrow> int" where
  "critical_system_count inc =
     int (length (filter (\<lambda>system. list_ex (\<lambda>crit. str_in crit (lower system)) critical_systems)
                         (affected_systems (report inc))))"

definition impact_scope_score :: "Incident \<Rightarrow> int" where
  "impact_scope_score inc =
     int (length (affected_systems (report inc))) + critical_system_count inc * 2"

definition security_boost :: "Incident \<Rightarrow> int" where
  "security_boost inc = (if is_security_incident inc then 1 else 0)"

definition escalation_boost :: "Incident \<Rightarrow> int" where
  "escalation_boost inc = (if escalation_needed inc then 2 else 0)"

definition composite_score :: "Incident \<Rightarrow> int" where
  "composite_score inc =
     (severity_score (severity inc) + security_boost inc + escalation_boost inc) * 1000
       + impact_scope_score inc * 10"

definition get_enhanced_priority_score :: "Incident \<Rightarrow> int \<times> int" where
  "get_enhanced_priority_score inc = (composite_score inc, - created_at inc)"

definition prioritize_incidents_with_impact_scope :: "Incident list \<Rightarrow> Incident list" where
  "prioritize_incidents_with_impact_scope incidents =
     sorted_reverse get_enhanced_priority_score incidents"

text \<open>
  Two incidents for the ordering: a critical one with no flag, and a high one that went
  through \<open>mark_as_security_incident\<close> and \<open>escalate\<close>.
\<close>

definition plain_critical_incident :: Incident where
  "plain_critical_incident =
     after_calls [(1, SetSeverity ''critical'' ''outage'')]
       (Incident_init 0 (sample_incident_report\<lparr> id_r := ''INC-A'' \<rparr>))"

definition flagged_high_incident :: Incident where
  "flagged_high_incident =
     after_calls [(1, SetSeverity ''high'' ''degraded''), (2, MarkAsSecurityIncident),
                  (3, Escalate ''security implications'' None)]
       (Incident_init 0 (sample_incident_report\<lparr> id_r := ''INC-B'' \<rparr>))"

definition plain_high_incident :: Incident where
  "plain_high_incident =
     after_calls [(1, SetSeverity ''high'' ''degraded'')]
       (Incident_init 0 (sample_incident_report\<lparr> id_r := ''INC-C'' \<rparr>))"

text \<open>
  What the ordering guarantee is about: \<open>a\<close> is of a severity the specification orders
  before that of \<open>b\<close> (critical before high, high before medium and low).
\<close>

definition ordered_before_by_severity :: "Incident \<Rightarrow> Incident \<Rightarrow> bool" where
  "ordered_before_by_severity a b =
     ((severity a = Some CRITICAL \<and> severity b = Some HIGH) \<or>
      (severity a = Some HIGH \<and> (severity b = Some MEDIUM \<or> severity b = Some LOW)))"

section \<open>Diagnostic tools (tools/diagnostic_tools.py)\<close>









text \<open>\<open>round(x, 2)\<close>: to the nearest multiple of 0.01, a tie going to the even one.\<close>

definition round2 :: "rat \<Rightarrow> rat" where
  "round2 x =
     (let n = \<lfloor>x * 100\<rfloor>; r = x * 100 - of_int n
      in of_int (if r < 1 / 2 then n
                 else if r > 1 / 2 then n + 1
                 else if even n then n else n + 1) / 100)"









section \<open>Incident record tools (tools/incident_tools.py)\<close>

text \<open>
  The tool store is the module-level dictionary \<open>_incident_store\<close>, from incident id to
  a record dictionary. The generated id (\<open>INC-{date}-{8 hex characters of a uuid4}\<close>) and
  the ISO-8601 text of the current time are parameters of the operations that read them.
\<close>

datatype timeline_extra =
    NoExtra
  | SeverityExtra string
  | ChangeExtra string string
  | TeamsExtra "string list"
  | NotesExtra string

record timeline_entry =
  tl_timestamp :: string
  tl_event :: string
  tl_details :: string
  tl_extra :: timeline_extra

record tool_incident =
  incident_id_t :: string
  title_t :: string
  description_t :: string
  severity_t :: string
  status_t :: string
  affected_systems_t :: "string list"
  reporter_t :: string
  source_t :: string
  created_at_t :: string
  updated_at_t :: string
  assigned_teams :: "string list"
  suggested_actions :: "string list"
  escalation_needed_t :: bool
  resolution_notes :: string
  timeline :: "timeline_entry list"

type_synonym incident_store = "(string \<times> tool_incident) list"

text \<open>The dictionaries the tools return.\<close>

datatype tool_response =
    ToolError string
  | Created string string tool_incident
  | Updated string string "string list" tool_incident

text \<open>
  \<open>sep.join(xs)\<close>, and the text an f-string gives for a list of strings (exact for
  strings without quotes, backslashes and non-printing characters). The arrow in the
  change notes is U+2192, three bytes in UTF-8.
\<close>

fun join :: "string \<Rightarrow> string list \<Rightarrow> string" where
  "join sep [] = []"
| "join sep [x] = x"
| "join sep (x # y # ys) = x @ sep @ join sep (y # ys)"

definition repr_str_list :: "string list \<Rightarrow> string" where
  "repr_str_list xs = ''['' @ join '', '' (map (\<lambda>s. [CHR 0x27] @ s @ [CHR 0x27]) xs) @ '']''"

definition arrow :: string where
  "arrow = [CHR 0xE2, CHR 0x86, CHR 0x92]"

definition create_incident_tool ::
  "string \<Rightarrow> string \<Rightarrow> string \<Rightarrow> string \<Rightarrow> string \<Rightarrow> string list \<Rightarrow> string option
     \<Rightarrow> string option \<Rightarrow> incident_store \<Rightarrow> tool_response \<times> incident_store" where
  "create_incident_tool new_id ts ttl descr sev systems reporter_arg source_arg store =
     (let rep = (case reporter_arg of None \<Rightarrow> ''system'' | Some r \<Rightarrow> r);
          src = (case source_arg of None \<Rightarrow> ''agent'' | Some s \<Rightarrow> s);
          incident =
            \<lparr> incident_id_t = new_id, title_t = ttl, description_t = descr, severity_t = sev,
              status_t = ''open'', affected_systems_t = systems, reporter_t = rep,
              source_t = src, created_at_t = ts, updated_at_t = ts, assigned_teams = [],
              suggested_actions = [], escalation_needed_t = False, resolution_notes = [],
              timeline =
                [\<lparr> tl_timestamp = ts, tl_event = ''incident_created'',
                   tl_details = ''Incident created by '' @ rep,
                   tl_extra = SeverityExtra sev \<rparr>] \<rparr>
      in (Created new_id (''Incident '' @ new_id @ '' created successfully'') incident,
          AList.update new_id incident store))"

text \<open>
  \<open>update_incident_tool\<close> changes the stored dictionary in place, one optional argument
  after the other; each step below returns the record and the change notes so far.
\<close>

definition update_status_field ::
  "string \<Rightarrow> string option \<Rightarrow> tool_incident \<times> string list \<Rightarrow> tool_incident \<times> string list" where
  "update_status_field ts arg st =
     (case arg of
        None \<Rightarrow> st
      | Some new_status \<Rightarrow>
          (let incident = fst st; old_status = status_t incident in
           (incident\<lparr> status_t := new_status,
                      timeline := timeline incident @
                        [\<lparr> tl_timestamp = ts, tl_event = ''status_changed'',
                           tl_details = ''Status changed from '' @ old_status @ '' to '' @ new_status,
                           tl_extra = ChangeExtra old_status new_status \<rparr>] \<rparr>,
            snd st @ [''status: '' @ old_status @ '' '' @ arrow @ '' '' @ new_status])))"

definition update_severity_field ::
  "string \<Rightarrow> string option \<Rightarrow> tool_incident \<times> string list \<Rightarrow> tool_incident \<times> string list" where
  "update_severity_field ts arg st =
     (case arg of
        None \<Rightarrow> st
      | Some new_severity \<Rightarrow>
          (let incident = fst st; old_severity = severity_t incident in
           (incident\<lparr> severity_t := new_severity,
                      timeline := timeline incident @
                        [\<lparr> tl_timestamp = ts, tl_event = ''severity_changed'',
                           tl_details = ''Severity changed from '' @ old_severity @ '' to ''
                                          @ new_severity,
                           tl_extra = ChangeExtra old_severity new_severity \<rparr>] \<rparr>,
            snd st @ [''severity: '' @ old_severity @ '' '' @ arrow @ '' '' @ new_severity])))"

definition update_teams_field ::
  "string \<Rightarrow> string list option \<Rightarrow> tool_incident \<times> string list
     \<Rightarrow> tool_incident \<times> string list" where
  "update_teams_field ts arg st =
     (case arg of
        None \<Rightarrow> st
      | Some new_teams \<Rightarrow>
          (let incident = fst st; old_teams = assigned_teams incident in
           (incident\<lparr> assigned_teams := new_teams,
                      timeline := timeline incident @
                        [\<lparr> tl_timestamp = ts, tl_event = ''teams_assigned'',
                           tl_details = ''Teams assigned: '' @ join '', '' new_teams,
                           tl_extra = TeamsExtra new_teams \<rparr>] \<rparr>,
            snd st @ [''assigned_teams: '' @ repr_str_list old_teams @ '' '' @ arrow @ '' ''
                        @ repr_str_list new_teams])))"

definition update_notes_field ::
  "string \<Rightarrow> string option \<Rightarrow> tool_incident \<times> string list \<Rightarrow> tool_incident \<times> string list" where
  "update_notes_field ts arg st =
     (case arg of
        None \<Rightarrow> st
      | Some notes \<Rightarrow>
          (let incident = fst st in
           (incident\<lparr> resolution_notes := notes,
                      timeline := timeline incident @
                        [\<lparr> tl_timestamp = ts, tl_event = ''resolution_notes_added'',
                           tl_details = ''Resolution notes updated'',
                           tl_extra = NotesExtra notes \<rparr>] \<rparr>,
            snd st @ [''resolution_notes updated''])))"

definition add_custom_event ::
  "string \<Rightarrow> string option \<Rightarrow> tool_incident \<times> string list \<Rightarrow> tool_incident \<times> string list" where
  "add_custom_event ts arg st =
     (case arg of
        None \<Rightarrow> st
      | Some event_text \<Rightarrow>
          (let incident = fst st in
           (incident\<lparr> timeline := timeline incident @
                        [\<lparr> tl_timestamp = ts, tl_event = ''custom_event'',
                           tl_details = event_text, tl_extra = NoExtra \<rparr>] \<rparr>,
            snd st @ [''timeline event added''])))"

definition update_incident_tool ::
  "string \<Rightarrow> string \<Rightarrow> string option \<Rightarrow> string option \<Rightarrow> string list option \<Rightarrow> string option
     \<Rightarrow> string option \<Rightarrow> incident_store \<Rightarrow> tool_response \<times> incident_store" where
  "update_incident_tool ts iid status_arg severity_arg teams_arg notes_arg event_arg store =
     (case map_of store iid of
        None \<Rightarrow> (ToolError (''Incident '' @ iid @ '' not found''), store)
      | Some incident0 \<Rightarrow>
          (let st = add_custom_event ts event_arg
                     (update_notes_field ts notes_arg
                       (update_teams_field ts teams_arg
                         (update_severity_field ts severity_arg
                           (update_status_field ts status_arg (incident0, [])))));
               incident = (fst st)\<lparr> updated_at_t := ts \<rparr>;
               changes = snd st
           in (Updated iid (''Incident '' @ iid @ '' updated: '' @ join '', '' changes) changes
                 incident,
               AList.update iid incident store)))"

definition clear_incidents_store :: "incident_store \<Rightarrow> incident_store" where
  "clear_incidents_store store = []"

text \<open>
  A call of an operation that writes the store, and the store after a history of calls.
\<close>

datatype store_call =
    CreateCall string string string string string "string list" "string option" "string option"
  | UpdateCall string string "string option" "string option" "string list option"
      "string option" "string option"
  | ClearCall

fun after_store_call :: "store_call \<Rightarrow> incident_store \<Rightarrow> incident_store" where
  "after_store_call (CreateCall new_id ts ttl descr sev systems rep src) store =
     snd (create_incident_tool new_id ts ttl descr sev systems rep src store)"
| "after_store_call (UpdateCall ts iid st_arg sev_arg teams_arg notes_arg ev_arg) store =
     snd (update_incident_tool ts iid st_arg sev_arg teams_arg notes_arg ev_arg store)"
| "after_store_call ClearCall store = clear_incidents_store store"

fun after_store_calls :: "store_call list \<Rightarrow> incident_store \<Rightarrow> incident_store" where
  "after_store_calls [] store = store"
| "after_store_calls (c # cs) store = after_store_calls cs (after_store_call c store)"

text \<open>
  What the callers last supplied, read off the history alone: for each incident id, the
  severity and the teams. A create supplies its severity and no teams; an update of a
  known id supplies the arguments it carries and leaves the others as they were; an
  update of an unknown id supplies nothing; a clear forgets every id.
\<close>

fun supplied_by :: "store_call \<Rightarrow> (string \<rightharpoonup> string \<times> string list)
    \<Rightarrow> (string \<rightharpoonup> string \<times> string list)" where
  "supplied_by (CreateCall new_id ts ttl descr sev systems rep src) m = m(new_id \<mapsto> (sev, []))"
| "supplied_by (UpdateCall ts iid st_arg sev_arg teams_arg notes_arg ev_arg) m =
     (case m iid of
        None \<Rightarrow> m
      | Some (sev0, teams0) \<Rightarrow>
          m(iid \<mapsto> ((case sev_arg of None \<Rightarrow> sev0 | Some sev \<Rightarrow> sev),
                    (case teams_arg of None \<Rightarrow> teams0 | Some teams_given \<Rightarrow> teams_given))))"
| "supplied_by ClearCall m = Map.empty"

fun last_supplied :: "store_call list \<Rightarrow> (string \<rightharpoonup> string \<times> string list)
    \<Rightarrow> (string \<rightharpoonup> string \<times> string list)" where
  "last_supplied [] m = m"
| "last_supplied (c # cs) m = last_supplied cs (supplied_by c m)"

text \<open>The severity and the teams of the record a store holds under an id.\<close>

definition stored_severity_and_teams ::
  "incident_store \<Rightarrow> string \<rightharpoonup> string \<times> string list" where
  "stored_severity_and_teams store iid =
     map_option (\<lambda>r. (severity_t r, assigned_teams r)) (map_of store iid)"

text \<open>What every stored record satisfies, whatever was written.\<close>

definition stored_record_ok :: "string \<times> tool_incident \<Rightarrow> bool" where
  "stored_record_ok entry =
     (incident_id_t (snd entry) = fst entry \<and> suggested_actions (snd entry) = [] \<and>
      timeline (snd entry) \<noteq> [])"

text \<open>The store after one call of the create tool, and the record it holds.\<close>

definition store_after_create :: incident_store where
  "store_after_create =
     after_store_calls
       [CreateCall ''INC-20250101-1a2b3c4d'' ''2025-01-01T00:00:00+00:00''
          ''Disk almost full'' ''Volume at 97 percent'' ''urgent'' [''storage''] None None] []"

definition record_after_create :: tool_incident where
  "record_after_create =
     \<lparr> incident_id_t = ''INC-20250101-1a2b3c4d'', title_t = ''Disk almost full'',
       description_t = ''Volume at 97 percent'', severity_t = ''urgent'', status_t = ''open'',
       affected_systems_t = [''storage''], reporter_t = ''system'', source_t = ''agent'',
       created_at_t = ''2025-01-01T00:00:00+00:00'', updated_at_t = ''2025-01-01T00:00:00+00:00'',
       assigned_teams = [], suggested_actions = [], escalation_needed_t = False,
       resolution_notes = [],
       timeline =
         [\<lparr> tl_timestamp = ''2025-01-01T00:00:00+00:00'', tl_event = ''incident_created'',
            tl_details = ''Incident created by system'', tl_extra = SeverityExtra ''urgent'' \<rparr>] \<rparr>"

text \<open>
  A history of the shape the tools-augmented pipeline writes for one incident (create,
  then the teams with a note, then the status with resolution notes), with the creation
  of a second incident in between.
\<close>

definition pipeline_history :: "store_call list" where
  "pipeline_history =
     [CreateCall ''INC-20250101-1a2b3c4d'' ''2025-01-01T00:00:00+00:00''
        ''Disk almost full'' ''Volume at 97 percent'' ''high'' [''storage'']
        (Some ''monitoring-system'') (Some ''monitoring''),
      UpdateCall ''2025-01-01T00:00:01+00:00'' ''INC-20250101-1a2b3c4d'' None None
        (Some [''Infrastructure'', ''SRE'']) None (Some ''Teams assigned: Infrastructure, SRE''),
      CreateCall ''INC-20250101-99999999'' ''2025-01-01T00:00:02+00:00''
        ''Other'' ''Other incident'' ''low'' [] None None,
      UpdateCall ''2025-01-01T00:00:03+00:00'' ''INC-20250101-1a2b3c4d''
        (Some ''in_progress'') None None
        (Some ''Runbooks found: 1, Diagnostic queries generated: 3'')
        (Some ''Response coordination completed with tool assistance'')]"

section \<open>Historical patterns (routers/triage_router.py)\<close>

text \<open>
  Text helpers: \<open>str(n)\<close> for an integer, the format \<open>{x:.2f}\<close>, and \<open>s.split()\<close>,
  which splits at runs of whitespace.
\<close>

definition digit_char :: "nat \<Rightarrow> char" where
  "digit_char n = char_of (48 + n)"

function str_nat :: "nat \<Rightarrow> string" where
  "str_nat n = (if n < 10 then [digit_char n] else str_nat (n div 10) @ [digit_char (n mod 10)])"
  by pat_completeness auto
termination
  by (relation "measure (\<lambda>n. n)") auto

definition str_int :: "int \<Rightarrow> string" where
  "str_int i = (if i < 0 then ''-'' @ str_nat (nat (- i)) else str_nat (nat i))"

definition fmt_2f :: "rat \<Rightarrow> string" where
  "fmt_2f x =
     (let m = \<lfloor>round2 x * 100\<rfloor>; a = nat \<bar>m\<bar>
      in (if m < 0 then ''-'' else []) @ str_nat (a div 100) @ ''.''
           @ [digit_char (a mod 100 div 10), digit_char (a mod 10)])"

definition is_space :: "char \<Rightarrow> bool" where
  "is_space c =
     (c \<in> set [CHR '' '', CHR 0x09, CHR 0x0A, CHR 0x0B, CHR 0x0C, CHR 0x0D,
                CHR 0x1C, CHR 0x1D, CHR 0x1E, CHR 0x1F])"

fun split_acc :: "string \<Rightarrow> string \<Rightarrow> string list" where
  "split_acc w [] = (if w = [] then [] else [w])"
| "split_acc w (c # cs) =
     (if is_space c then (if w = [] then split_acc [] cs else w # split_acc [] cs)
      else split_acc (w @ [c]) cs)"

definition split_ws :: "string \<Rightarrow> string list" where
  "split_ws s = split_acc [] s"

definition newline :: string where
  "newline = [CHR 0x0A]"

text \<open>
  A Python \<open>set\<close> of strings is modelled as the list of its distinct elements in order of
  first occurrence. Only the sizes of the sets enter the scores; the order in which a set
  is iterated, which Python leaves open, shows only in the order of words in a joined
  text.
\<close>

definition set_of :: "string list \<Rightarrow> string list" where
  "set_of xs = remdups xs"

definition set_inter :: "string list \<Rightarrow> string list \<Rightarrow> string list" where
  "set_inter xs ys = filter (\<lambda>x. x \<in> set ys) xs"

text \<open>
  A historical incident is a dictionary; every key the matcher reads may be absent. An
  element of its \<open>resolution_actions\<close> list is a dictionary, with or without an
  \<open>action_type\<close>, or some other object.
\<close>

datatype hist_action = NotADict | ActionDict "string option"

record historical_incident =
  h_title :: "string option"
  h_affected_systems :: "string list option"
  h_severity :: "string option"
  h_is_security_incident :: "bool option"
  h_description :: "string option"
  h_resolution_time_minutes :: "int option"
  h_resolution_actions :: "hist_action list option"
  h_escalation_needed :: "bool option"

record severity_assessment_guidance =
  historical_severity :: "string option"
  resolution_time_pattern :: "int option"
  escalation_pattern :: bool
  historical_systems :: nat
  current_systems :: nat

text \<open>An element of the matcher's result: the historical dictionary and the added keys.\<close>

record similar_incident =
  hist :: historical_incident
  similarity_score :: rat
  pattern_insights :: "string list"
  severity_references :: "string list"
  match_confidence :: string
  guidance :: severity_assessment_guidance

definition opt_default :: "'a option \<Rightarrow> 'a \<Rightarrow> 'a" where
  "opt_default v dflt = (case v of None \<Rightarrow> dflt | Some x \<Rightarrow> x)"

definition max3 :: "nat \<Rightarrow> nat \<Rightarrow> nat \<Rightarrow> nat" where
  "max3 a b c = max (max a b) c"

definition ratio :: "nat \<Rightarrow> nat \<Rightarrow> rat" where
  "ratio a b = of_nat a / of_nat b"

text \<open>
  One iteration of the loop of \<open>match_historical_patterns_with_severity_reference\<close>: the
  score is the sum of the six contributions, and the two lists collect the notes in the
  order the code appends them. Scores are rationals (the code adds floats).
\<close>

definition score_historical_incident :: "Incident \<Rightarrow> historical_incident \<Rightarrow> similar_incident" where
  "score_historical_incident inc h =
     (let current_title = lower (title (report inc));
          current_systems = set_of (map lower (affected_systems (report inc)));
          current_description = lower (description (report inc));
          hist_title = lower (opt_default (h_title h) []);
          title_words = set_of (filter (\<lambda>w. length w > 3) (split_ws current_title));
          hist_title_words = set_of (filter (\<lambda>w. length w > 3) (split_ws hist_title));
          common_title_words = set_inter title_words hist_title_words;
          title_part = (if common_title_words \<noteq> []
             then (3 / 10) * ratio (length common_title_words)
                                   (max3 (length title_words) (length hist_title_words) 1)
             else 0);
          title_ins = (if common_title_words \<noteq> []
             then [''Similar keywords: '' @ join '', '' common_title_words] else []);
          hist_systems = set_of (map lower (opt_default (h_affected_systems h) []));
          common_systems = set_inter current_systems hist_systems;
          exact_system_overlap = length common_systems;
          system_part = (if exact_system_overlap > 0
             then (4 / 10) * ratio exact_system_overlap
                                   (max3 (length current_systems) (length hist_systems) 1)
             else 0);
          system_ins = (if exact_system_overlap > 0
             then [''Common systems: '' @ join '', '' common_systems] else []);
          partial_matches = length (filter
             (\<lambda>curr_sys. list_ex (\<lambda>hist_sys. str_in curr_sys hist_sys \<or> str_in hist_sys curr_sys)
                                    hist_systems) current_systems);
          partial_part = (if partial_matches > 0
             then (1 / 10) * ratio partial_matches (max (length current_systems) 1) else 0);
          hist_severity = h_severity h;
          severity_matches = (case (hist_severity, severity inc) of
               (Some hs, Some s) \<Rightarrow> hs \<noteq> [] \<and> hs = severity_value s
             | other \<Rightarrow> False);
          severity_part = (if severity_matches then 15 / 100 else 0);
          severity_refs = (case hist_severity of
               None \<Rightarrow> []
             | Some hs \<Rightarrow>
                 (if hs = [] then []
                  else (case severity inc of
                          Some s \<Rightarrow>
                            (if hs = severity_value s
                             then [''Historical severity matches current: '' @ hs]
                             else [''Historical severity was '' @ hs @ '', current is ''
                                     @ severity_value s])
                        | None \<Rightarrow> [''Similar incidents were typically classified as '' @ hs])));
          hist_security = opt_default (h_is_security_incident h) False;
          both_security = (hist_security = is_security_incident inc \<and> is_security_incident inc);
          security_part = (if both_security then 1 / 10 else 0);
          security_ins = (if both_security then [''Both are security incidents''] else []);
          security_refs = (if both_security
             then [''Security incidents typically require immediate escalation'']
             else if hist_security \<and> \<not> is_security_incident inc
             then [''Similar incidents had security implications - review for security indicators'']
             else []);
          hist_description = lower (opt_default (h_description h) []);
          desc_words = set_of (filter (\<lambda>w. length w > 4) (split_ws current_description));
          hist_desc_words = set_of (filter (\<lambda>w. length w > 4) (split_ws hist_description));
          common_desc_words = set_inter desc_words hist_desc_words;
          desc_part = (if length common_desc_words \<ge> 2
             then (15 / 100) * ratio (length common_desc_words)
                                     (max3 (length desc_words) (length hist_desc_words) 1)
             else 0);
          desc_ins = (if length common_desc_words \<ge> 2
             then [''Similar description terms: '' @ join '', '' (take 3 common_desc_words)]
             else []);
          hist_resolution_time = h_resolution_time_minutes h;
          time_refs = (case hist_resolution_time of
               None \<Rightarrow> []
             | Some t \<Rightarrow>
                 (if t = 0 then []
                  else if t < 30
                  then [''Similar incidents were resolved quickly (< 30 min) - may indicate lower severity'']
                  else if t > 240
                  then [''Similar incidents took extended time (> 4 hours) - may indicate higher complexity'']
                  else [''Similar incidents typically resolved in '' @ str_int t @ '' minutes'']));
          hist_resolution_actions = opt_default (h_resolution_actions h) [];
          actions_ins = (if hist_resolution_actions \<noteq> []
             then [''Previous resolution approaches: ''
                     @ str_nat (length hist_resolution_actions) @ '' actions taken'']
             else []);
          action_types = concat (map (\<lambda>a. case a of NotADict \<Rightarrow> []
                                            | ActionDict t \<Rightarrow> [opt_default t []])
                                     hist_resolution_actions);
          action_refs = (if hist_resolution_actions \<noteq> [] \<and> action_types \<noteq> []
             then [''Common resolution actions: '' @ join '', '' (set_of action_types)] else []);
          hist_escalated = opt_default (h_escalation_needed h) False;
          escalation_refs = (if hist_escalated
             then [''Similar incidents required escalation - consider higher severity'']
             else []);
          hist_system_count = length (opt_default (h_affected_systems h) []);
          current_system_count = length (affected_systems (report inc));
          count_refs = (if hist_system_count > current_system_count
             then [''Similar incidents affected more systems ('' @ str_nat hist_system_count
                     @ '' vs '' @ str_nat current_system_count @ '') - monitor for spread'']
             else if hist_system_count < current_system_count
             then [''Current incident affects more systems than similar historical incidents - consider higher severity'']
             else []);
          score = title_part + system_part + partial_part + severity_part + security_part
                    + desc_part
      in \<lparr> hist = h,
           similarity_score = score,
           pattern_insights = title_ins @ system_ins @ security_ins @ desc_ins @ actions_ins,
           severity_references = severity_refs @ security_refs @ time_refs @ action_refs
                                   @ escalation_refs @ count_refs,
           match_confidence = (if score > 6 / 10 then ''high''
                               else if score > 4 / 10 then ''medium'' else ''low''),
           guidance = \<lparr> historical_severity = hist_severity,
                        resolution_time_pattern = hist_resolution_time,
                        escalation_pattern = hist_escalated,
                        historical_systems = hist_system_count,
                        current_systems = current_system_count \<rparr> \<rparr>)"

text \<open>\<open>xs.sort(key=k, reverse=True)\<close> for a numeric key, stable as above.\<close>

definition sorted_reverse_by :: "('a \<Rightarrow> rat) \<Rightarrow> 'a list \<Rightarrow> 'a list" where
  "sorted_reverse_by k xs = sort_key (\<lambda>x. - k x) xs"

definition match_historical_patterns_with_severity_reference ::
  "Incident \<Rightarrow> historical_incident list \<Rightarrow> similar_incident list" where
  "match_historical_patterns_with_severity_reference inc historical =
     (if historical = [] then []
      else take 5 (sorted_reverse_by similarity_score
             (filter (\<lambda>s. similarity_score s > 25 / 100)
                     (map (score_historical_incident inc) historical))))"

subsection \<open>The router and the enrichment of a classification\<close>

record SeverityClassificationSchema =
  reasoning_c :: string
  severity_c :: string
  security_incident_c :: bool
  affected_systems_c :: "string list"

text \<open>
  The language model is a parameter of the router: \<open>Inl\<close> when the call raises,
  \<open>Inr None\<close> when it returns an object that is not a classification (the \<open>Mock\<close>
  client used without an API key does), \<open>Inr (Some c)\<close> when it returns one. The prompt
  is a fixed format of the report's fields, so the answer is a function of the report.
\<close>

record TriageRouter =
  llm :: "IncidentReport \<Rightarrow> error + SeverityClassificationSchema option"
  historical_incidents :: "historical_incident list"

definition find_similar_incidents :: "TriageRouter \<Rightarrow> Incident \<Rightarrow> similar_incident list" where
  "find_similar_incidents router inc =
     match_historical_patterns_with_severity_reference inc (historical_incidents router)"

definition severity_weights :: "string \<rightharpoonup> rat" where
  "severity_weights = map_of [(''critical'', 4), (''high'', 3), (''medium'', 2), (''low'', 1)]"

text \<open>The pairs \<open>(hist_severity, similarity_score)\<close> of the matches above 0.4.\<close>

definition confident_matches :: "similar_incident list \<Rightarrow> similar_incident list" where
  "confident_matches similar =
     filter (\<lambda>s. (case h_severity (hist s) of None \<Rightarrow> False | Some hs \<Rightarrow> hs \<noteq> [])
                 \<and> similarity_score s > 4 / 10) similar"

definition severity_adjustments :: "string \<Rightarrow> similar_incident list \<Rightarrow> string list" where
  "severity_adjustments current_severity similar =
     (let historical_severities =
            map (\<lambda>s. (opt_default (h_severity (hist s)) [], similarity_score s))
                (confident_matches similar)
      in if historical_severities = [] then []
         else
           (let current_weight = dict_get severity_weights current_severity 2;
                weighted_historical_score =
                  sum_list (map (\<lambda>(hist_sev, sim_score).
                                   dict_get severity_weights hist_sev 2 * sim_score)
                                historical_severities);
                total_weight = sum_list (map snd historical_severities)
            in if total_weight > 0 then
                 (let avg_historical_weight = weighted_historical_score / total_weight
                  in if \<bar>avg_historical_weight - current_weight\<bar> \<ge> 1 then
                       (if avg_historical_weight > current_weight
                        then [''Historical patterns suggest higher severity'']
                        else [''Historical patterns suggest lower severity''])
                     else [])
               else []))"

definition enhanced_reasoning :: "string \<Rightarrow> string \<Rightarrow> similar_incident list \<Rightarrow> string" where
  "enhanced_reasoning reasoning0 current_severity similar =
     (let insights = concat (map severity_references (confident_matches similar));
          adjustments = severity_adjustments current_severity similar
      in reasoning0
         @ (if insights \<noteq> []
            then newline @ newline @ ''Historical Pattern Analysis:'' @ newline
                 @ concat (map (\<lambda>insight. ''- '' @ insight @ newline) (take 3 insights))
            else [])
         @ (if adjustments \<noteq> []
            then newline @ ''Severity Assessment Notes:'' @ newline
                 @ concat (map (\<lambda>adjustment. ''- '' @ adjustment @ newline) adjustments)
            else [])
         @ (case similar of
              [] \<Rightarrow> []
            | top_match # others \<Rightarrow>
                newline @ ''Found '' @ str_nat (length similar)
                  @ '' similar historical incidents (top match: ''
                  @ fmt_2f (similarity_score top_match) @ '' similarity)''))"

text \<open>
  \<open>apply_historical_patterns_to_severity_assessment\<close>. The temporary incident is built
  with \<open>set_severity\<close>, which raises \<open>ValueError\<close> on a severity outside the enum.
\<close>

definition apply_historical_patterns_to_severity_assessment ::
  "TriageRouter \<Rightarrow> int \<Rightarrow> IncidentReport \<Rightarrow> SeverityClassificationSchema
     \<Rightarrow> error + SeverityClassificationSchema" where
  "apply_historical_patterns_to_severity_assessment router now incident_report initial =
     (case set_severity now (severity_c initial) (reasoning_c initial)
             (Incident_init now incident_report) of
        Inl e \<Rightarrow> Inl e
      | Inr inc1 \<Rightarrow>
          (let temp_incident = (if security_incident_c initial
                                then mark_as_security_incident now inc1 else inc1);
               similar_incidents = find_similar_incidents router temp_incident
           in if similar_incidents = [] then Inr initial
              else Inr \<lparr> reasoning_c = enhanced_reasoning (reasoning_c initial)
                                         (severity_c initial) similar_incidents,
                         severity_c = severity_c initial,
                         security_incident_c = security_incident_c initial,
                         affected_systems_c = affected_systems_c initial \<rparr>))"

text \<open>
  An example: a medium classification of the sample report, and a history of one
  critical database incident that resembles it.
\<close>

definition past_database_outage :: historical_incident where
  "past_database_outage =
     \<lparr> h_title = Some ''Database connection failure'',
       h_affected_systems = Some [''database'', ''api''],
       h_severity = Some ''critical'',
       h_is_security_incident = Some False,
       h_description = Some ''Database connections timing out under load'',
       h_resolution_time_minutes = Some 45,
       h_resolution_actions = None,
       h_escalation_needed = Some True \<rparr>"

definition router_with_history :: TriageRouter where
  "router_with_history =
     \<lparr> llm = (\<lambda>r. Inr None), historical_incidents = [past_database_outage] \<rparr>"

definition medium_classification :: SeverityClassificationSchema where
  "medium_classification =
     \<lparr> reasoning_c = ''Intermittent timeouts'', severity_c = ''medium'',
       security_incident_c = False, affected_systems_c = [''database'', ''api''] \<rparr>"

subsection \<open>Classification and escalation\<close>






section \<open>Core pipeline (incident_agent.py, utils.py)\<close>

text \<open>
  The raw incident is a dictionary; a key may be absent. \<open>affected_systems\<close> and
  \<open>severity_indicators\<close> hold a list of strings or one comma-separated string, and
  \<open>timestamp\<close> holds ISO-8601 text or a \<open>datetime\<close>.
\<close>

datatype str_or_list = StrValue string | ListValue "string list"

datatype raw_time = TimeText string | TimeValue int

record raw_incident =
  raw_id :: "string option"
  raw_title :: "string option"
  raw_description :: "string option"
  raw_source :: "string option"
  raw_timestamp :: "raw_time option"
  raw_reporter :: "string option"
  raw_affected_systems :: "str_or_list option"
  raw_error_logs :: "string option"
  raw_metrics_data :: "(string \<times> pyval) list option"
  raw_severity_indicators :: "str_or_list option"









record notification =
  n_type :: string
  recipients :: "string list"
  n_message :: string
  urgency :: string

text \<open>
  The workflow state: a dictionary whose keys are absent until a stage writes them. The
  last three fields are the keys \<open>_incident\<close>, \<open>_classification\<close> and
  \<open>_notifications\<close>. A stage returns the name of the next stage and its update; the
  model returns the name and the state with the update merged in.
\<close>

record IncidentState =
  incident_input :: raw_incident
  severity_classification :: "string option"
  team_assignment :: "string list option"
  suggested_actions_s :: "string list option"
  escalation_needed_s :: "bool option"
  resolution_status :: "string option"
  incident_id_s :: "string option"
  created_at_s :: "int option"
  updated_at_s :: "int option"
  incident_s :: "Incident option"
  classification_s :: "SeverityClassificationSchema option"
  notifications_s :: "notification list option"























section \<open>Verified properties\<close>

subsection \<open>Team registry\<close>

lemma name_mutators [simp]:
  "name (assign_incident i t) = name t"
  "name (resolve_incident i t) = name t"
  "name (set_availability a t) = name t"
  by (simp_all add: assign_incident_def resolve_incident_def set_availability_def
      update_workload_score_def)

lemma keys_are_names_update:
  "list_all (\<lambda>(k, t). name t = k) al \<Longrightarrow> list_all (\<lambda>(k, t). name t = k) (AList.update (name team) team al)"
  by (induction al) auto

lemma keys_init: "keys_are_names TeamRegistry_init"
  by (simp add: keys_are_names_def TeamRegistry_init_def register_team_def sre_team_def
      backend_team_def security_team_def infrastructure_team_def ResponseTeam_init_def)

lemma sre_key_init: "''SRE'' \<in> fst ` set (teams TeamRegistry_init)"
  by (simp add: TeamRegistry_init_def register_team_def sre_team_def
      backend_team_def security_team_def infrastructure_team_def ResponseTeam_init_def)

lemma on_team_keys: "fst ` set (teams (on_team nm f reg)) = fst ` set (teams reg)"
  by (force simp: on_team_def split: if_splits)

lemma register_keys: "fst ` set (teams (register_team team reg)) = insert (name team) (fst ` set (teams reg))"
  by (simp add: register_team_def AList.dom_update)

lemma on_team_keys_are_names:
  assumes "keys_are_names reg" and "\<And>t. name (f t) = name t"
  shows "keys_are_names (on_team nm f reg)"
  using assms by (auto simp: keys_are_names_def on_team_def list_all_iff split: if_splits)

lemma reachable_inv:
  "reachable_registry reg \<Longrightarrow> keys_are_names reg \<and> ''SRE'' \<in> fst ` set (teams reg)"
proof (induction rule: reachable_registry.induct)
  case reg_init
  then show ?case by (simp add: keys_init sre_key_init)
next
  case (reg_register reg team)
  then show ?case
    by (simp add: register_keys) (simp add: keys_are_names_def register_team_def keys_are_names_update)
next
  case (reg_assign reg nm i)
  then show ?case by (simp add: on_team_keys on_team_keys_are_names)
next
  case (reg_resolve reg nm i)
  then show ?case by (simp add: on_team_keys on_team_keys_are_names)
next
  case (reg_availability reg nm a)
  then show ?case by (simp add: on_team_keys on_team_keys_are_names)
qed

lemma get_sre:
  assumes "reachable_registry reg"
  shows "\<exists>sre. get_team reg ''SRE'' = Some sre \<and> name sre = ''SRE''"
proof -
  from reachable_inv[OF assms] have k: "keys_are_names reg" and s: "''SRE'' \<in> fst ` set (teams reg)"
    by auto
  from s obtain sre where g: "map_of (teams reg) ''SRE'' = Some sre"
    by (metis domD dom_map_of_conv_image_fst)
  then have "(''SRE'', sre) \<in> set (teams reg)" by (rule map_of_SomeD)
  with k have "name sre = ''SRE''" by (auto simp: keys_are_names_def list_all_iff)
  with g show ?thesis by (simp add: get_team_def)
qed

lemma find_best_capable:
  assumes "filter (\<lambda>team. can_handle_incident_type team ty) (get_available_teams reg) \<noteq> []"
  shows "find_best_team_for_incident reg ty sev \<noteq> None"
proof -
  let ?c = "filter (\<lambda>team. can_handle_incident_type team ty) (get_available_teams reg)"
  have "length (sort_key (\<lambda>t. (- get_expertise_level t ty, workload_score t)) ?c) = length ?c"
    by simp
  with assms obtain b r where "sort_key (\<lambda>t. (- get_expertise_level t ty, workload_score t)) ?c = b # r"
    by (cases "sort_key (\<lambda>t. (- get_expertise_level t ty, workload_score t)) ?c") auto
  with assms show ?thesis by (simp add: find_best_team_for_incident_def Let_def)
qed

lemma find_best_fallback:
  assumes "filter (\<lambda>team. can_handle_incident_type team ty) (get_available_teams reg) = []"
  shows "find_best_team_for_incident reg ty sev = get_team reg ''SRE''"
  using assms by (simp add: find_best_team_for_incident_def Let_def)

text \<open>
  Claim C8. On every registry reachable from construction (the four seeded teams, then
  any calls of \<open>register_team\<close> and of the team mutators), and for every incident type
  and severity string, \<open>find_best_team_for_incident\<close> returns a team, never \<open>None\<close>. When
  no available team is capable of the type, the team returned is the one stored under
  \<open>"SRE"\<close>, which every reachable registry holds and whose name is \<open>"SRE"\<close>.
\<close>

theorem find_best_team_never_none:
  assumes "reachable_registry reg"
  shows "find_best_team_for_incident reg ty sev \<noteq> None \<and>
    (filter (\<lambda>team. can_handle_incident_type team ty) (get_available_teams reg) = [] \<longrightarrow>
      (\<exists>sre. find_best_team_for_incident reg ty sev = Some sre \<and>
             get_team reg ''SRE'' = Some sre \<and> name sre = ''SRE''))"
  using get_sre[OF assms] find_best_capable[of ty reg sev] find_best_fallback[of ty reg sev]
  by (cases "filter (\<lambda>team. can_handle_incident_type team ty) (get_available_teams reg) = []") auto

theorem find_best_team_never_none_witness:
  "reachable_registry TeamRegistry_init \<and>
   filter (\<lambda>team. can_handle_incident_type team ''unknown'') (get_available_teams TeamRegistry_init) = [] \<and>
   find_best_team_for_incident TeamRegistry_init ''unknown'' ''medium'' = Some sre_team \<and>
   get_team TeamRegistry_init ''SRE'' = Some sre_team \<and> name sre_team = ''SRE''"
proof -
  have e: "filter (\<lambda>team. can_handle_incident_type team ''unknown'') (get_available_teams TeamRegistry_init) = []"
    by code_simp
  have g: "get_team TeamRegistry_init ''SRE'' = Some sre_team" by code_simp
  from find_best_team_never_none[OF reg_init, of "''unknown''" "''medium''"] e g
  show ?thesis by (auto intro: reg_init)
qed


text \<open>The fallback does not look at the availability of the SRE team.\<close>

lemma reg_sre_unavailable_reachable: "reachable_registry reg_sre_unavailable"
  unfolding reg_sre_unavailable_def by (intro reachable_registry.intros)

lemma reg_sre_at_capacity_reachable: "reachable_registry reg_sre_at_capacity"
  unfolding reg_sre_at_capacity_def by (intro reachable_registry.intros)

lemma reg_backend_unavailable_reachable: "reachable_registry reg_backend_unavailable"
  unfolding reg_backend_unavailable_def by (intro reachable_registry.intros)

lemma sre_unavailable_eval:
  "find_best_team_for_incident reg_sre_unavailable ''unknown'' ''medium''
     = Some (set_availability UNAVAILABLE sre_team)"
  by code_simp

lemma sre_unavailable_not_available:
  "\<not> is_available_for_new_incidents (set_availability UNAVAILABLE sre_team)"
  by code_simp

lemma sre_capacity_eval:
  "find_best_team_for_incident reg_sre_at_capacity ''unknown'' ''medium'' = Some sre_team_at_capacity"
  by code_simp

lemma sre_capacity_not_available:
  "\<not> is_available_for_new_incidents sre_team_at_capacity"
  by code_simp

lemma backend_unavailable_eval:
  "can_handle_incident_type (set_availability UNAVAILABLE backend_team) ''api'' \<and>
   get_team reg_backend_unavailable ''Backend'' = Some (set_availability UNAVAILABLE backend_team) \<and>
   find_best_team_for_incident reg_backend_unavailable ''api'' ''medium'' = Some sre_team"
  by code_simp

text \<open>
  Claim C10. The SRE fallback of \<open>find_best_team_for_incident\<close> bypasses the availability
  check: whenever no team is both available and capable of the incident type, the result
  is the registry's SRE entry as it is. In reachable registries the SRE team is returned
  while its status is \<open>unavailable\<close>, and while it holds five incidents (the cap); and the
  fallback also fires for type \<open>"api"\<close> when the only capable team, Backend, is
  unavailable.
\<close>

theorem sre_fallback_bypasses_availability:
  "(filter (\<lambda>team. can_handle_incident_type team ty) (get_available_teams reg) = [] \<longrightarrow>
      find_best_team_for_incident reg ty sev = get_team reg ''SRE'')
   \<and> reachable_registry reg_sre_unavailable
   \<and> find_best_team_for_incident reg_sre_unavailable ''unknown'' ''medium''
        = Some (set_availability UNAVAILABLE sre_team)
   \<and> \<not> is_available_for_new_incidents (set_availability UNAVAILABLE sre_team)
   \<and> reachable_registry reg_sre_at_capacity
   \<and> find_best_team_for_incident reg_sre_at_capacity ''unknown'' ''medium'' = Some sre_team_at_capacity
   \<and> name sre_team_at_capacity = ''SRE''
   \<and> \<not> is_available_for_new_incidents sre_team_at_capacity
   \<and> reachable_registry reg_backend_unavailable
   \<and> can_handle_incident_type (set_availability UNAVAILABLE backend_team) ''api''
   \<and> get_team reg_backend_unavailable ''Backend'' = Some (set_availability UNAVAILABLE backend_team)
   \<and> find_best_team_for_incident reg_backend_unavailable ''api'' ''medium'' = Some sre_team"
proof -
  have n: "name sre_team_at_capacity = ''SRE''" by code_simp
  show ?thesis
    using find_best_fallback[of ty reg sev] reg_sre_unavailable_reachable
      sre_unavailable_eval sre_unavailable_not_available reg_sre_at_capacity_reachable
      sre_capacity_eval sre_capacity_not_available reg_backend_unavailable_reachable
      backend_unavailable_eval n
    by blast
qed

theorem sre_fallback_bypasses_availability_witness:
  "filter (\<lambda>team. can_handle_incident_type team ''api'') (get_available_teams reg_backend_unavailable) = []
   \<and> find_best_team_for_incident reg_backend_unavailable ''api'' ''medium''
       = get_team reg_backend_unavailable ''SRE''"
proof -
  have e: "filter (\<lambda>team. can_handle_incident_type team ''api'') (get_available_teams reg_backend_unavailable) = []"
    by code_simp
  from sre_fallback_bypasses_availability[of "''api''" reg_backend_unavailable "''medium''"] e
  show ?thesis by blast
qed

subsection \<open>Notifier\<close>

text \<open>
  Claim C7. \<open>should_notify\<close> computes the documented rule, read in the documented order
  (disabled, critical, security, escalated, high, created with medium or low, otherwise
  false). Hence it is true for every incident data whose severity is \<open>"critical"\<close> or
  whose \<open>is_security_incident\<close> is \<open>True\<close> when the notifier is enabled, and false
  whenever the notifier is disabled, whatever the severity.
\<close>

theorem should_notify_rule:
  "should_notify n d mt = should_notify_documented n d mt
   \<and> (truthy (is_enabled n) \<and>
        (d ''severity'' = Some (PStr ''critical'') \<or> d ''is_security_incident'' = Some (PBool True))
        \<longrightarrow> should_notify n d mt)
   \<and> (\<not> truthy (is_enabled n) \<longrightarrow> \<not> should_notify n d mt)"
  by (auto simp: should_notify_def should_notify_documented_def is_enabled_def dict_get_def Let_def
      split: option.splits)


theorem should_notify_rule_witness:
  "should_notify (BaseNotifier_init Map.empty) [''severity'' \<mapsto> PStr ''critical''] ''updated''
   \<and> should_notify (BaseNotifier_init Map.empty)
        [''severity'' \<mapsto> PStr ''low'', ''is_security_incident'' \<mapsto> PBool True] ''updated''
   \<and> \<not> should_notify (BaseNotifier_init [''enabled'' \<mapsto> PBool False])
        [''severity'' \<mapsto> PStr ''critical''] ''created''"
proof -
  have on: "truthy (is_enabled (BaseNotifier_init Map.empty))"
    by (simp add: BaseNotifier_init_def is_enabled_def dict_get_def)
  have off: "\<not> truthy (is_enabled (BaseNotifier_init [''enabled'' \<mapsto> PBool False]))"
    by (simp add: BaseNotifier_init_def is_enabled_def dict_get_def)
  have c: "[''severity'' \<mapsto> PStr ''critical''] ''severity'' = Some (PStr ''critical'')"
    by simp
  have s: "[''severity'' \<mapsto> PStr ''low'', ''is_security_incident'' \<mapsto> PBool True]
             ''is_security_incident'' = Some (PBool True)"
    by simp
  from on off c s
    should_notify_rule[of "BaseNotifier_init Map.empty" "[''severity'' \<mapsto> PStr ''critical'']"
      "''updated''"]
    should_notify_rule[of "BaseNotifier_init Map.empty"
      "[''severity'' \<mapsto> PStr ''low'', ''is_security_incident'' \<mapsto> PBool True]" "''updated''"]
    should_notify_rule[of "BaseNotifier_init [''enabled'' \<mapsto> PBool False]"
      "[''severity'' \<mapsto> PStr ''critical'']" "''created''"]
  show ?thesis by blast
qed

subsection \<open>Incident audit trail\<close>

lemma after_call_length:
  "length (status_updates inc) \<le> length (status_updates (after_call now c inc))"
  by (cases c)
     (auto simp: set_severity_def assign_team_def add_resolution_action_def update_status_def
        escalate_def mark_as_security_incident_def Let_def split: option.splits)

lemma after_calls_length:
  "length (status_updates inc) \<le> length (status_updates (after_calls cs inc))"
proof (induction cs arbitrary: inc)
  case Nil
  then show ?case by simp
next
  case (Cons a cs)
  obtain now c where a: "a = (now, c)" by (cases a)
  have "length (status_updates inc) \<le> length (status_updates (after_call now c inc))"
    by (rule after_call_length)
  also have "\<dots> \<le> length (status_updates (after_calls cs (after_call now c inc)))"
    by (rule Cons.IH)
  finally show ?case by (simp add: a)
qed

text \<open>
  Claim C6. The length of \<open>status_updates\<close> never decreases across any history of calls of
  the mutators (a call that raises leaves the incident as it was), and each successful call
  of \<open>set_severity\<close>, \<open>assign_team\<close>, \<open>update_status\<close>, \<open>escalate\<close> or
  \<open>mark_as_security_incident\<close> appends exactly one entry to it.
\<close>

theorem status_updates_append_only:
  "length (status_updates inc) \<le> length (status_updates (after_calls cs inc))
   \<and> (set_severity t1 sev reasoning inc = Inr inc1 \<longrightarrow>
        (\<exists>e. status_updates inc1 = status_updates inc @ [e]))
   \<and> (\<exists>e. status_updates (assign_team t2 ta inc) = status_updates inc @ [e])
   \<and> (update_status t3 st why inc = Inr inc2 \<longrightarrow>
        (\<exists>e. status_updates inc2 = status_updates inc @ [e]))
   \<and> (\<exists>e. status_updates (escalate t4 esc target inc) = status_updates inc @ [e])
   \<and> (\<exists>e. status_updates (mark_as_security_incident t5 inc) = status_updates inc @ [e])"
proof -
  have a: "set_severity t1 sev reasoning inc = Inr inc1 \<longrightarrow>
        (\<exists>e. status_updates inc1 = status_updates inc @ [e])"
    by (auto simp: set_severity_def split: option.splits)
  have b: "update_status t3 st why inc = Inr inc2 \<longrightarrow>
        (\<exists>e. status_updates inc2 = status_updates inc @ [e])"
    by (auto simp: update_status_def Let_def split: option.splits)
  show ?thesis
    using a b after_calls_length[of inc cs]
    by (simp add: assign_team_def escalate_def mark_as_security_incident_def Let_def)
qed

theorem status_updates_append_only_witness:
  "(\<exists>inc1. set_severity 10 ''critical'' ''why'' sample_incident = Inr inc1
      \<and> length (status_updates inc1) = 1)
   \<and> (\<exists>inc2. update_status 11 ''resolved'' ''fixed'' sample_incident = Inr inc2
      \<and> length (status_updates inc2) = 1)"
proof -
  obtain inc1 where 1: "set_severity 10 ''critical'' ''why'' sample_incident = Inr inc1"
    by (simp add: set_severity_def IncidentSeverity_of_def)
  obtain inc2 where 2: "update_status 11 ''resolved'' ''fixed'' sample_incident = Inr inc2"
    by (simp add: update_status_def IncidentStatus_of_def Let_def)
  have 0: "status_updates sample_incident = []"
    by (simp add: sample_incident_def Incident_init_def)
  from status_updates_append_only[where inc = sample_incident and cs = "[]" and ?t1.0 = 10
      and sev = "''critical''" and reasoning = "''why''" and ?inc1.0 = inc1 and ?t3.0 = 11
      and st = "''resolved''" and why = "''fixed''" and ?inc2.0 = inc2 and ?t2.0 = 12
      and ta = "\<lparr> team_name = ''SRE'', assignment_reason = ''fallback'', priority = 1,
                 escalation_path_ta = [], estimated_response_time = 5 \<rparr>"
      and ?t4.0 = 13 and esc = "''no progress''" and target = None and ?t5.0 = 14] 1 2 0
  show ?thesis by auto
qed

subsection \<open>Heuristic severity classification\<close>

text \<open>The substring test of the code decides containment.\<close>

lemma startswith_iff: "startswith s p = (\<exists>after. s = p @ after)"
  by (induction s p rule: startswith.induct) auto

lemma str_in_iff: "str_in k t = contains_keyword t k"
proof (induction t)
  case Nil
  show ?case by (simp add: contains_keyword_def)
next
  case (Cons c cs)
  have "contains_keyword (c # cs) k =
          ((\<exists>after. c # cs = k @ after) \<or> contains_keyword cs k)"
  proof
    assume "contains_keyword (c # cs) k"
    then obtain before after where e: "c # cs = before @ k @ after"
      by (auto simp: contains_keyword_def)
    show "(\<exists>after. c # cs = k @ after) \<or> contains_keyword cs k"
    proof (cases before)
      case Nil
      with e show ?thesis by auto
    next
      case (Cons b bs)
      with e have "cs = bs @ k @ after" by simp
      then show ?thesis by (auto simp: contains_keyword_def)
    qed
  next
    assume "(\<exists>after. c # cs = k @ after) \<or> contains_keyword cs k"
    then show "contains_keyword (c # cs) k"
    proof
      assume "\<exists>after. c # cs = k @ after"
      then obtain after where "c # cs = [] @ k @ after" by auto
      then show ?thesis unfolding contains_keyword_def by blast
    next
      assume "contains_keyword cs k"
      then obtain before after where "cs = before @ k @ after"
        by (auto simp: contains_keyword_def)
      then have "c # cs = (c # before) @ k @ after" by simp
      then show ?thesis unfolding contains_keyword_def by blast
    qed
  qed
  with Cons show ?case by (simp add: startswith_iff)
qed

lemma returns_true_in_loop_iff: "returns_true_in_loop p xs = (\<exists>x \<in> set xs. p x)"
  by (induction xs) auto

lemma detect_security_indicators_documented:
  "detect_security_indicators r = security_detected_documented r"
  unfolding detect_security_indicators_def security_detected_documented_def
    returns_true_in_loop_iff list_ex_iff str_in_iff text_to_check_def
  by (auto simp: security_keywords_def documented_security_keywords_def security_systems_def
      documented_security_systems_def)

lemma fallback_severity_classification_cascade:
  "fallback_severity_classification r = severity_documented r"
  unfolding fallback_severity_classification_def severity_documented_def
    detect_security_indicators_documented list_ex_iff str_in_iff text_to_check_def
  by (auto simp: critical_keywords_def documented_critical_keywords_def high_keywords_def
      documented_high_keywords_def)

text \<open>
  The classifier on sample reports: a keyword in capitals, a keyword that spans the end
  of the title and the start of the description, a keyword spelt with the Kelvin sign, a
  severity indicator, a system name, and the three cases below critical.
\<close>

lemma fallback_severity_classification_samples:
  "map fallback_severity_classification
     [report_of ''Total OUTAGE'' ''Checkout stopped'' [''web''] [],
      report_of ''Total stop'' ''Checkout stopped'' [''web''] [],
      report_of ''Payments complete'' ''failure of the nightly batch'' [''web''] [],
      report_of ''Payments'' ''failure of the nightly batch'' [''web''] [],
      report_of kelvin_title ''Unknown logins'' [''web''] [],
      report_of ''Odd emails'' ''Staff report strange messages'' [''mail'']
        [''Possible PHISHING''],
      report_of ''Odd emails'' ''Staff report strange messages'' [''mail''] [''Possible spam''],
      report_of ''Login page blank'' ''Users see an empty page'' [''Auth-Service''] [],
      report_of ''Login page blank'' ''Users see an empty page'' [''web''] [],
      report_of ''Pages render late'' ''Several services affected''
        [''web'', ''cache'', ''queue'', ''search''] [],
      report_of ''Checkout LATENCY above target'' ''One service affected'' [''web''] [],
      report_of ''Pages render late'' ''Two services affected'' [''web'', ''cache''] [],
      report_of ''Pages render late'' ''One service affected'' [''web''] []]
   = [''critical'', ''low'', ''critical'', ''low'', ''critical'', ''critical'', ''low'',
      ''critical'', ''low'', ''high'', ''high'', ''medium'', ''low'']"
  by code_simp

text \<open>
  Claim C4. For every incident report the heuristic classifier of the code returns the
  severity of the reference definition: critical if security indicators are detected or
  the text (title, space, description, lower-cased) contains a critical keyword; else
  high if more than 3 systems are affected or the text contains a high keyword; else
  medium if more than 1 system is affected; else low. Security detection matches the
  text, any severity indicator, or any affected-system name against the documented
  lists. The sample reports fix what is read and how: \<open>OUTAGE\<close> in the title gives
  critical, \<open>complete\<close> at the end of the title followed by \<open>failure\<close> at the start of
  the description gives critical, and so does \<open>hacK\<close> written with the Kelvin sign.
\<close>

theorem fallback_severity_classification_documented:
  "fallback_severity_classification r = severity_documented r
   \<and> detect_security_indicators r = security_detected_documented r
   \<and> map fallback_severity_classification
        [report_of ''Total OUTAGE'' ''Checkout stopped'' [''web''] [],
         report_of ''Total stop'' ''Checkout stopped'' [''web''] [],
         report_of ''Payments complete'' ''failure of the nightly batch'' [''web''] [],
         report_of ''Payments'' ''failure of the nightly batch'' [''web''] [],
         report_of kelvin_title ''Unknown logins'' [''web''] [],
         report_of ''Odd emails'' ''Staff report strange messages'' [''mail'']
           [''Possible PHISHING''],
         report_of ''Odd emails'' ''Staff report strange messages'' [''mail'']
           [''Possible spam''],
         report_of ''Login page blank'' ''Users see an empty page'' [''Auth-Service''] [],
         report_of ''Login page blank'' ''Users see an empty page'' [''web''] [],
         report_of ''Pages render late'' ''Several services affected''
           [''web'', ''cache'', ''queue'', ''search''] [],
         report_of ''Checkout LATENCY above target'' ''One service affected'' [''web''] [],
         report_of ''Pages render late'' ''Two services affected'' [''web'', ''cache''] [],
         report_of ''Pages render late'' ''One service affected'' [''web''] []]
      = [''critical'', ''low'', ''critical'', ''low'', ''critical'', ''critical'', ''low'',
         ''critical'', ''low'', ''high'', ''high'', ''medium'', ''low'']"
  using fallback_severity_classification_cascade[of r]
    detect_security_indicators_documented[of r] fallback_severity_classification_samples
  by (intro conjI)

subsection \<open>Prioritisation\<close>

lemma prioritize_mset:
  "mset (prioritize_incidents_with_impact_scope xs) = mset xs"
  by (simp add: prioritize_incidents_with_impact_scope_def sorted_reverse_def)

lemma prioritize_sorted:
  "sorted (map (\<lambda>x. (- fst (get_enhanced_priority_score x), - snd (get_enhanced_priority_score x)))
     (prioritize_incidents_with_impact_scope xs))"
  by (simp add: prioritize_incidents_with_impact_scope_def sorted_reverse_def)

lemma prioritize_nth_mono:
  assumes "p < q" and "q < length (prioritize_incidents_with_impact_scope xs)"
  shows "composite_score (prioritize_incidents_with_impact_scope xs ! q)
           \<le> composite_score (prioritize_incidents_with_impact_scope xs ! p)"
proof -
  let ?res = "prioritize_incidents_with_impact_scope xs"
  let ?k = "\<lambda>x. (- fst (get_enhanced_priority_score x), - snd (get_enhanced_priority_score x))"
  have "map ?k ?res ! p \<le> map ?k ?res ! q"
    using prioritize_sorted[of xs] assms by (intro sorted_nth_mono) auto
  with assms have "?k (?res ! p) \<le> ?k (?res ! q)" by simp
  then show ?thesis
    by (auto simp: get_enhanced_priority_score_def less_eq_prod_def)
qed

lemma impact_nonneg: "0 \<le> impact_scope_score inc"
  by (simp add: impact_scope_score_def critical_system_count_def)

lemma outranks_composite:
  assumes "ordered_before_by_severity a b"
    and "is_security_incident a = is_security_incident b"
    and "escalation_needed a = escalation_needed b"
    and "impact_scope_score b < 100"
  shows "composite_score b < composite_score a"
proof -
  have "severity_score (severity b) + 1 \<le> severity_score (severity a)"
    using assms(1) by (auto simp: ordered_before_by_severity_def severity_score_def)
  moreover have "security_boost a = security_boost b" "escalation_boost a = escalation_boost b"
    using assms(2,3) by (simp_all add: security_boost_def escalation_boost_def)
  ultimately show ?thesis
    using assms(4) impact_nonneg[of a] by (simp add: composite_score_def)
qed

text \<open>
  Claim C2, as amended. For every list of incidents, \<open>prioritize_incidents_with_impact_scope\<close>
  returns a permutation of its input (same count, same set of incident ids), in
  non-increasing order of the composite score
  \<open>(severity rank + security boost + escalation boost) * 1000 + impact scope * 10\<close>.
  A critical incident stands before a high one, and a high one before a medium or low
  one, whenever the two have the same security flag and the same escalation flag and the
  impact scope of the lower-severity one is below 100.
\<close>

theorem prioritize_permutation_sorted_by_composite_score:
  "mset (prioritize_incidents_with_impact_scope xs) = mset xs
   \<and> length (prioritize_incidents_with_impact_scope xs) = length xs
   \<and> set (map (\<lambda>i. id_r (report i)) (prioritize_incidents_with_impact_scope xs))
       = set (map (\<lambda>i. id_r (report i)) xs)
   \<and> (\<forall>p q. p < q \<and> q < length xs \<longrightarrow>
         composite_score (prioritize_incidents_with_impact_scope xs ! q)
           \<le> composite_score (prioritize_incidents_with_impact_scope xs ! p))
   \<and> (\<forall>p q. p < length xs \<and> q < length xs
         \<and> ordered_before_by_severity (prioritize_incidents_with_impact_scope xs ! p)
                                       (prioritize_incidents_with_impact_scope xs ! q)
         \<and> is_security_incident (prioritize_incidents_with_impact_scope xs ! p)
             = is_security_incident (prioritize_incidents_with_impact_scope xs ! q)
         \<and> escalation_needed (prioritize_incidents_with_impact_scope xs ! p)
             = escalation_needed (prioritize_incidents_with_impact_scope xs ! q)
         \<and> impact_scope_score (prioritize_incidents_with_impact_scope xs ! q) < 100
         \<longrightarrow> p < q)"
proof -
  let ?res = "prioritize_incidents_with_impact_scope xs"
  have m: "mset ?res = mset xs" by (rule prioritize_mset)
  then have l: "length ?res = length xs" by (rule mset_eq_length)
  have s: "set (map (\<lambda>i. id_r (report i)) ?res) = set (map (\<lambda>i. id_r (report i)) xs)"
    using mset_eq_setD[OF m] by simp
  have mono: "\<forall>p q. p < q \<and> q < length xs \<longrightarrow> composite_score (?res ! q) \<le> composite_score (?res ! p)"
    using prioritize_nth_mono[of _ _ xs] l by auto
  have ord: "\<forall>p q. p < length xs \<and> q < length xs
         \<and> ordered_before_by_severity (?res ! p) (?res ! q)
         \<and> is_security_incident (?res ! p) = is_security_incident (?res ! q)
         \<and> escalation_needed (?res ! p) = escalation_needed (?res ! q)
         \<and> impact_scope_score (?res ! q) < 100
         \<longrightarrow> p < q"
  proof (intro allI impI)
    fix p q
    assume h: "p < length xs \<and> q < length xs
         \<and> ordered_before_by_severity (?res ! p) (?res ! q)
         \<and> is_security_incident (?res ! p) = is_security_incident (?res ! q)
         \<and> escalation_needed (?res ! p) = escalation_needed (?res ! q)
         \<and> impact_scope_score (?res ! q) < 100"
    then have lt: "composite_score (?res ! q) < composite_score (?res ! p)"
      by (intro outranks_composite) auto
    show "p < q"
    proof (rule ccontr)
      assume "\<not> p < q"
      then consider "p = q" | "q < p" by linarith
      then show False
      proof cases
        case 1
        with lt show False by simp
      next
        case 2
        with h l have "composite_score (?res ! p) \<le> composite_score (?res ! q)"
          by (intro prioritize_nth_mono) auto
        with lt show False by simp
      qed
    qed
  qed
  from m l s mono ord show ?thesis by blast
qed

text \<open>
  The ordering by severity alone fails: a high incident that is flagged as a security
  incident and as escalated scores 6040 and is placed before a critical incident with
  no flag, which scores 4040.
\<close>

theorem critical_not_always_before_high:
  "prioritize_incidents_with_impact_scope [plain_critical_incident, flagged_high_incident]
     = [flagged_high_incident, plain_critical_incident]
   \<and> severity plain_critical_incident = Some CRITICAL
   \<and> severity flagged_high_incident = Some HIGH"
  by code_simp

lemma critical_then_high_eval: "prioritize_incidents_with_impact_scope [plain_high_incident, plain_critical_incident]
     = [plain_critical_incident, plain_high_incident]"
  by code_simp

lemma critical_then_high_facts: "ordered_before_by_severity plain_critical_incident plain_high_incident
  \<and> is_security_incident plain_critical_incident = is_security_incident plain_high_incident
  \<and> escalation_needed plain_critical_incident = escalation_needed plain_high_incident
  \<and> impact_scope_score plain_high_incident < 100"
  by code_simp

theorem prioritize_permutation_sorted_by_composite_score_witness:
  "prioritize_incidents_with_impact_scope [plain_high_incident, plain_critical_incident]
     = [plain_critical_incident, plain_high_incident]
   \<and> ordered_before_by_severity plain_critical_incident plain_high_incident
   \<and> is_security_incident plain_critical_incident = is_security_incident plain_high_incident
   \<and> escalation_needed plain_critical_incident = escalation_needed plain_high_incident
   \<and> impact_scope_score plain_high_incident < 100
   \<and> (0::nat) < 1
   \<and> composite_score plain_high_incident \<le> composite_score plain_critical_incident"
proof -
  let ?xs = "[plain_high_incident, plain_critical_incident]"
  have r: "prioritize_incidents_with_impact_scope ?xs = [plain_critical_incident, plain_high_incident]"
    by (rule critical_then_high_eval)
  from prioritize_permutation_sorted_by_composite_score[of ?xs]
  have "\<forall>p q. p < q \<and> q < length ?xs \<longrightarrow>
         composite_score (prioritize_incidents_with_impact_scope ?xs ! q)
           \<le> composite_score (prioritize_incidents_with_impact_scope ?xs ! p)"
    by blast
  then have "(0::nat) < 1 \<and> 1 < length ?xs \<longrightarrow>
         composite_score (prioritize_incidents_with_impact_scope ?xs ! 1)
           \<le> composite_score (prioritize_incidents_with_impact_scope ?xs ! 0)"
    by blast
  then have "composite_score plain_high_incident \<le> composite_score plain_critical_incident"
    by (simp add: r)
  with r critical_then_high_facts show ?thesis by simp
qed

subsection \<open>Metric status\<close>

















subsection \<open>Tool store\<close>

lemma update_steps_keep:
  "incident_id_t (fst (update_status_field ts a st)) = incident_id_t (fst st)"
  "suggested_actions (fst (update_status_field ts a st)) = suggested_actions (fst st)"
  "timeline (fst st) \<noteq> [] \<Longrightarrow> timeline (fst (update_status_field ts a st)) \<noteq> []"
  "incident_id_t (fst (update_severity_field ts a st)) = incident_id_t (fst st)"
  "suggested_actions (fst (update_severity_field ts a st)) = suggested_actions (fst st)"
  "timeline (fst st) \<noteq> [] \<Longrightarrow> timeline (fst (update_severity_field ts a st)) \<noteq> []"
  "incident_id_t (fst (update_teams_field ts b st)) = incident_id_t (fst st)"
  "suggested_actions (fst (update_teams_field ts b st)) = suggested_actions (fst st)"
  "timeline (fst st) \<noteq> [] \<Longrightarrow> timeline (fst (update_teams_field ts b st)) \<noteq> []"
  "incident_id_t (fst (update_notes_field ts a st)) = incident_id_t (fst st)"
  "suggested_actions (fst (update_notes_field ts a st)) = suggested_actions (fst st)"
  "timeline (fst st) \<noteq> [] \<Longrightarrow> timeline (fst (update_notes_field ts a st)) \<noteq> []"
  "incident_id_t (fst (add_custom_event ts a st)) = incident_id_t (fst st)"
  "suggested_actions (fst (add_custom_event ts a st)) = suggested_actions (fst st)"
  "timeline (fst st) \<noteq> [] \<Longrightarrow> timeline (fst (add_custom_event ts a st)) \<noteq> []"
  by (simp_all add: update_status_field_def update_severity_field_def update_teams_field_def
      update_notes_field_def add_custom_event_def Let_def split: option.splits)

lemma update_steps_severity:
  "severity_t (fst (update_status_field ts a st)) = severity_t (fst st)"
  "severity_t (fst (update_severity_field ts a st))
     = (case a of None \<Rightarrow> severity_t (fst st) | Some sev \<Rightarrow> sev)"
  "severity_t (fst (update_teams_field ts b st)) = severity_t (fst st)"
  "severity_t (fst (update_notes_field ts a st)) = severity_t (fst st)"
  "severity_t (fst (add_custom_event ts a st)) = severity_t (fst st)"
  by (simp_all add: update_status_field_def update_severity_field_def update_teams_field_def
      update_notes_field_def add_custom_event_def Let_def split: option.splits)

lemma update_steps_teams:
  "assigned_teams (fst (update_status_field ts a st)) = assigned_teams (fst st)"
  "assigned_teams (fst (update_severity_field ts a st)) = assigned_teams (fst st)"
  "assigned_teams (fst (update_teams_field ts b st))
     = (case b of None \<Rightarrow> assigned_teams (fst st) | Some teams_given \<Rightarrow> teams_given)"
  "assigned_teams (fst (update_notes_field ts a st)) = assigned_teams (fst st)"
  "assigned_teams (fst (add_custom_event ts a st)) = assigned_teams (fst st)"
  by (simp_all add: update_status_field_def update_severity_field_def update_teams_field_def
      update_notes_field_def add_custom_event_def Let_def split: option.splits)

lemma list_all_update:
  assumes "list_all stored_record_ok store" and "stored_record_ok (k, v)"
  shows "list_all stored_record_ok (AList.update k v store)"
  using assms by (induction store) auto

lemma create_keeps_ok:
  assumes "list_all stored_record_ok store"
  shows "list_all stored_record_ok
           (snd (create_incident_tool new_id ts ttl descr sev systems rep src store))"
  using assms
  by (simp add: create_incident_tool_def Let_def list_all_update stored_record_ok_def)

lemma update_keeps_ok:
  assumes "list_all stored_record_ok store"
  shows "list_all stored_record_ok
           (snd (update_incident_tool ts iid a b c d e store))"
proof (cases "map_of store iid")
  case None
  with assms show ?thesis by (simp add: update_incident_tool_def)
next
  case (Some r)
  then have "(iid, r) \<in> set store" by (rule map_of_SomeD)
  with assms have ok: "stored_record_ok (iid, r)" by (auto simp: list_all_iff)
  have "stored_record_ok (iid, (fst (add_custom_event ts e
                     (update_notes_field ts d
                       (update_teams_field ts c
                         (update_severity_field ts b
                           (update_status_field ts a (r, []))))))) \<lparr> updated_at_t := ts \<rparr>)"
    using ok by (simp add: stored_record_ok_def update_steps_keep)
  with assms Some show ?thesis
    by (simp add: update_incident_tool_def Let_def list_all_update)
qed

lemma after_store_call_ok:
  assumes "list_all stored_record_ok store"
  shows "list_all stored_record_ok (after_store_call c store)"
  using assms
  by (cases c) (simp_all add: create_keeps_ok update_keeps_ok clear_incidents_store_def)

lemma after_store_calls_ok:
  "list_all stored_record_ok store \<Longrightarrow> list_all stored_record_ok (after_store_calls cs store)"
  by (induction cs arbitrary: store) (simp_all add: after_store_call_ok)

lemma create_supplies:
  "stored_severity_and_teams
     (snd (create_incident_tool new_id ts ttl descr sev systems rep src store))
   = (stored_severity_and_teams store)(new_id \<mapsto> (sev, []))"
  by (rule ext)
     (simp add: stored_severity_and_teams_def create_incident_tool_def Let_def update_conv')

lemma update_supplies:
  "stored_severity_and_teams (snd (update_incident_tool ts iid a b c d e store))
   = (case stored_severity_and_teams store iid of
        None \<Rightarrow> stored_severity_and_teams store
      | Some (sev0, teams0) \<Rightarrow>
          (stored_severity_and_teams store)
            (iid \<mapsto> ((case b of None \<Rightarrow> sev0 | Some sev \<Rightarrow> sev),
                      (case c of None \<Rightarrow> teams0 | Some teams_given \<Rightarrow> teams_given))))"
proof (cases "map_of store iid")
  case None
  then show ?thesis
    by (simp add: stored_severity_and_teams_def update_incident_tool_def)
next
  case (Some r)
  then show ?thesis
    by (intro ext)
       (simp add: stored_severity_and_teams_def update_incident_tool_def Let_def update_conv'
          update_steps_severity update_steps_teams split: option.splits)
qed

lemma after_store_call_supplies:
  "stored_severity_and_teams (after_store_call c store)
     = supplied_by c (stored_severity_and_teams store)"
proof (cases c)
  case (CreateCall new_id ts ttl descr sev systems rep src)
  then show ?thesis by (simp add: create_supplies)
next
  case (UpdateCall ts iid st_arg sev_arg teams_arg notes_arg ev_arg)
  then show ?thesis by (simp add: update_supplies)
next
  case ClearCall
  then show ?thesis
    by (intro ext) (simp add: clear_incidents_store_def stored_severity_and_teams_def)
qed

lemma after_store_calls_supplies:
  "stored_severity_and_teams (after_store_calls cs store)
     = last_supplied cs (stored_severity_and_teams store)"
  by (induction cs arbitrary: store) (simp_all add: after_store_call_supplies)

text \<open>
  Claim C3, as amended. After every history of create, update and clear calls on the
  initially empty tool store, every record is stored under its own incident id, has a
  timeline of at least one entry, and has an empty \<open>suggested_actions\<close> list, which no
  operation writes. For every incident id, the store holds a record exactly when the
  history supplied one, and the severity and the \<open>assigned_teams\<close> of that record are the
  ones last supplied for that id: the severity string given to create (not checked
  against the four-value enum) and no team, until an update of that id supplies another
  severity or a list of teams. An update that omits the severity or the teams leaves
  them as they were, and so does every call that writes another id.
\<close>

theorem tool_store_invariant:
  "list_all stored_record_ok (after_store_calls calls [])
   \<and> stored_severity_and_teams (after_store_calls calls []) iid
       = last_supplied calls Map.empty iid"
proof -
  have e: "stored_severity_and_teams [] = Map.empty"
    by (intro ext) (simp add: stored_severity_and_teams_def)
  show ?thesis
    using after_store_calls_ok[of "[]" calls] after_store_calls_supplies[of calls "[]"]
    by (simp add: e)
qed

text \<open>
  The invariant of the specification fails in the state after one create: the record has
  no assigned team, no suggested action, and the severity \<open>urgent\<close> it was given.
\<close>

theorem tool_store_record_without_teams_and_actions:
  "map_of store_after_create ''INC-20250101-1a2b3c4d'' = Some record_after_create
   \<and> assigned_teams record_after_create = []
   \<and> suggested_actions record_after_create = []
   \<and> severity_t record_after_create \<notin> set [''critical'', ''high'', ''medium'', ''low'']"
  by code_simp

text \<open>
  A history of the shape the tools-augmented pipeline writes for one incident, with a
  second incident created in between: teams and a note, then status and resolution notes.
  The record keeps the severity of its creation and the teams of its first update.
\<close>

theorem tool_store_invariant_witness:
  "list_all stored_record_ok (after_store_calls pipeline_history [])
   \<and> stored_severity_and_teams (after_store_calls pipeline_history [])
       ''INC-20250101-1a2b3c4d'' = Some (''high'', [''Infrastructure'', ''SRE''])
   \<and> stored_severity_and_teams (after_store_calls pipeline_history [])
       ''INC-20250101-99999999'' = Some (''low'', [])"
proof -
  have a: "last_supplied pipeline_history Map.empty ''INC-20250101-1a2b3c4d''
             = Some (''high'', [''Infrastructure'', ''SRE''])"
    by (simp add: pipeline_history_def)
  have b: "last_supplied pipeline_history Map.empty ''INC-20250101-99999999''
             = Some (''low'', [])"
    by (simp add: pipeline_history_def)
  from tool_store_invariant[of pipeline_history "''INC-20250101-1a2b3c4d''"]
    tool_store_invariant[of pipeline_history "''INC-20250101-99999999''"] a b
  show ?thesis by simp
qed

subsection \<open>Historical patterns are advisory\<close>

text \<open>
  Claim C5. For every router (and so every list of historical incidents), every incident
  report and every initial classification, \<open>apply_historical_patterns_to_severity_assessment\<close>
  returns a classification with the severity, the security flag and the affected systems
  of the initial one, and a reasoning text that starts with the initial reasoning. It
  returns whenever the initial severity is one of the four enum values, and raises only
  when it is not (a classification validated by the schema never is).
\<close>

theorem apply_historical_patterns_keeps_severity:
  "(case apply_historical_patterns_to_severity_assessment router now incident_report initial of
      Inl e \<Rightarrow> IncidentSeverity_of (severity_c initial) = None
    | Inr c \<Rightarrow>
        IncidentSeverity_of (severity_c initial) \<noteq> None
        \<and> severity_c c = severity_c initial
        \<and> security_incident_c c = security_incident_c initial
        \<and> affected_systems_c c = affected_systems_c initial
        \<and> (\<exists>ext. reasoning_c c = reasoning_c initial @ ext))"
proof (cases "IncidentSeverity_of (severity_c initial)")
  case None
  then show ?thesis
    by (simp add: apply_historical_patterns_to_severity_assessment_def set_severity_def)
next
  case (Some s)
  then show ?thesis
    by (simp add: apply_historical_patterns_to_severity_assessment_def set_severity_def Let_def
        enhanced_reasoning_def)
qed

text \<open>
  The enrichment at work: the history suggests a higher severity than \<open>medium\<close>, the note
  is appended to the reasoning, and the severity stays \<open>medium\<close>.
\<close>

lemma apply_historical_patterns_example:
  "(case apply_historical_patterns_to_severity_assessment router_with_history 7
           sample_incident_report medium_classification of
      Inl e \<Rightarrow> False
    | Inr c \<Rightarrow>
        severity_c c = ''medium''
        \<and> str_in ''Historical patterns suggest higher severity'' (reasoning_c c))"
  by code_simp

subsection \<open>End-to-end scenario\<close>










end
